theory Spec2Isabelle
  imports Main "HOL-Library.Sublist" "HOL-Library.Multiset" "HOL-Library.Extended_Nat"
begin

section \<open>JavaScript strings\<close>

text \<open>
  A JavaScript string is a sequence of UTF-16 code units. The model uses \<open>string\<close>,
  whose characters are 8 bits wide, and reads a character as the code unit of the same
  number, so it covers the strings whose code units are below 256. The search words of
  the program (\<open>cancel\<close>, \<open>delay\<close>, \<open>qantas\<close>, \<open>:\<close>, the decimal digits) are ASCII.
\<close>

text \<open>White space and line terminators of \<open>String.prototype.trim\<close> and \<open>parseInt\<close>
  below code unit 256: TAB, LF, VT, FF, CR, SP and NBSP.\<close>

definition isWhiteSpace :: "char \<Rightarrow> bool" where
  "isWhiteSpace c = (of_char c \<in> set [9, 10, 11, 12, 13, 32, 160 :: nat])"

text \<open>\<open>String.prototype.trim\<close>.\<close>

definition trim :: "string \<Rightarrow> string" where
  "trim s = rev (dropWhile isWhiteSpace (rev (dropWhile isWhiteSpace s)))"

text \<open>\<open>String.prototype.toLowerCase\<close> on one code unit below 256: the letters A-Z and
  the Latin-1 capitals (192-222 without the multiplication sign 215) move up by 32.\<close>

definition lowerChar :: "char \<Rightarrow> char" where
  "lowerChar c =
     (let n = of_char c :: nat
      in if (65 \<le> n \<and> n \<le> 90) \<or> (192 \<le> n \<and> n \<le> 222 \<and> n \<noteq> 215)
         then char_of (n + 32) else c)"

definition toLowerCase :: "string \<Rightarrow> string" where
  "toLowerCase s = map lowerChar s"

text \<open>\<open>String.prototype.includes\<close>: \<open>includes_str s t\<close> is \<open>s.includes(t)\<close>.\<close>

fun includes_str :: "string \<Rightarrow> string \<Rightarrow> bool" where
  "includes_str [] t = (t = [])"
| "includes_str (c # cs) t = (prefix t (c # cs) \<or> includes_str cs t)"

text \<open>The first element of \<open>s.split(':')\<close>: the text before the first colon, the whole
  string when it has none (the array of \<open>split\<close> is never empty).\<close>

definition splitHead :: "string \<Rightarrow> string" where
  "splitHead s = takeWhile (\<lambda>c. c \<noteq> CHR '':'') s"

definition isDigit :: "char \<Rightarrow> bool" where
  "isDigit c = (48 \<le> (of_char c :: nat) \<and> (of_char c :: nat) \<le> 57)"

definition digitValue :: "char \<Rightarrow> nat" where
  "digitValue c = of_char c - 48"

text \<open>
  \<open>parseInt(s, 10)\<close> on a string: leading white space is dropped, one sign is read, and
  the longest run of decimal digits is the value; with no digit the result is \<open>NaN\<close>,
  here \<open>None\<close>. The value is an unbounded integer. JavaScript rounds a value beyond
  2^53 to a double (and \<open>-0\<close> names the property \<open>0\<close>); a rounded value is still
  outside 0..23, and the program reads a parsed hour only as a property key that the
  report looks up for 0..23.
\<close>

definition parseInt :: "string \<Rightarrow> int option" where
  "parseInt s =
     (let t = dropWhile isWhiteSpace s;
          neg = (t \<noteq> [] \<and> hd t = CHR ''-'');
          u = (if t \<noteq> [] \<and> (hd t = CHR ''-'' \<or> hd t = CHR ''+'') then tl t else t);
          z = takeWhile isDigit u
      in if z = [] then None
         else Some ((if neg then - 1 else 1) * int (foldl (\<lambda>a c. 10 * a + digitValue c) 0 z)))"

text \<open>The decimal text of a natural number, as a template literal prints it.\<close>

fun decimal :: "nat \<Rightarrow> string" where
  "decimal n =
     (if n < 10 then [char_of (48 + n)]
      else decimal (n div 10) @ [char_of (48 + n mod 10)])"

declare decimal.simps [simp del]

text \<open>\<open>xs.join(sep)\<close> on strings.\<close>

fun joinWith :: "string \<Rightarrow> string list \<Rightarrow> string" where
  "joinWith sep [] = []"
| "joinWith sep [x] = x"
| "joinWith sep (x # y # ys) = x @ sep @ joinWith sep (y # ys)"

section \<open>JavaScript values\<close>

text \<open>
  The values that \<open>JSON.parse\<close> and the query-string parser produce. A number is kept
  as its canonical text (\<open>Number.prototype.toString\<close>), which fixes the number up to the
  sign of zero: the program uses a number of a payload only through its truthiness, its
  strict equality and its text. An object is the list of its properties; the first
  binding of a name is the property.
\<close>

datatype jsval =
    JUndefined
  | JNull
  | JBool bool
  | JNum string
  | JStr string
  | JArr "jsval list"
  | JObj "(string \<times> jsval) list"

datatype error = TypeError | Error string

text \<open>\<open>ToBoolean\<close>.\<close>

fun truthy :: "jsval \<Rightarrow> bool" where
  "truthy JUndefined = False"
| "truthy JNull = False"
| "truthy (JBool b) = b"
| "truthy (JNum r) = (r \<noteq> ''0'')"
| "truthy (JStr s) = (s \<noteq> [])"
| "truthy (JArr xs) = True"
| "truthy (JObj ps) = True"

text \<open>\<open>a === b\<close> (and SameValueZero, no payload holding \<open>NaN\<close>) for two values read from
  different places of a parsed payload: arrays and objects are compared by identity, and
  two of them are never the same object.\<close>

fun strictEq :: "jsval \<Rightarrow> jsval \<Rightarrow> bool" where
  "strictEq JUndefined JUndefined = True"
| "strictEq JNull JNull = True"
| "strictEq (JBool a) (JBool b) = (a = b)"
| "strictEq (JNum a) (JNum b) = (a = b)"
| "strictEq (JStr a) (JStr b) = (a = b)"
| "strictEq a b = False"

text \<open>\<open>v.name\<close> for a property name that no prototype defines: reading a property of
  \<open>undefined\<close> or \<open>null\<close> throws, a primitive or an array has no such property.\<close>

fun getProp :: "jsval \<Rightarrow> string \<Rightarrow> error + jsval" where
  "getProp JUndefined name = Inl TypeError"
| "getProp JNull name = Inl TypeError"
| "getProp (JObj ps) name = (case map_of ps name of Some v \<Rightarrow> Inr v | None \<Rightarrow> Inr JUndefined)"
| "getProp v name = Inr JUndefined"

text \<open>\<open>v.toLowerCase()\<close>: only a string has the method; calling \<open>undefined\<close> throws.\<close>

fun callToLowerCase :: "jsval \<Rightarrow> error + string" where
  "callToLowerCase (JStr s) = Inr (toLowerCase s)"
| "callToLowerCase v = Inl TypeError"

text \<open>\<open>ToString\<close>, and the text of one element inside \<open>Array.prototype.join\<close>, where
  \<open>undefined\<close> and \<open>null\<close> print as the empty string.\<close>

fun toString :: "jsval \<Rightarrow> string"
  and joinElement :: "jsval \<Rightarrow> string" where
  "toString JUndefined = ''undefined''"
| "toString JNull = ''null''"
| "toString (JBool b) = (if b then ''true'' else ''false'')"
| "toString (JNum r) = r"
| "toString (JStr s) = s"
| "toString (JArr xs) = joinWith '','' (map joinElement xs)"
| "toString (JObj ps) = ''[object Object]''"
| "joinElement JUndefined = []"
| "joinElement JNull = []"
| "joinElement (JBool b) = toString (JBool b)"
| "joinElement (JNum r) = toString (JNum r)"
| "joinElement (JStr s) = toString (JStr s)"
| "joinElement (JArr xs) = toString (JArr xs)"
| "joinElement (JObj ps) = toString (JObj ps)"

text \<open>\<open>xs.join(', ')\<close> on an array value.\<close>

definition joinComma :: "jsval list \<Rightarrow> string" where
  "joinComma xs = joinWith '', '' (map joinElement xs)"

text \<open>\<open>a || b\<close>.\<close>

definition orElse :: "jsval \<Rightarrow> jsval \<Rightarrow> jsval" where
  "orElse a b = (if truthy a then a else b)"

text \<open>\<open>Array.prototype.includes\<close> of a list of string constants.\<close>

definition arrayIncludes :: "string list \<Rightarrow> jsval \<Rightarrow> bool" where
  "arrayIncludes xs v = list_ex (\<lambda>x. strictEq (JStr x) v) xs"

text \<open>\<open>[...new Set(xs)]\<close>: the first occurrence of each value, in order; \<open>same\<close> is the
  comparison of the set.\<close>

definition setValues :: "('a \<Rightarrow> 'a \<Rightarrow> bool) \<Rightarrow> 'a list \<Rightarrow> 'a list" where
  "setValues same xs =
     foldl (\<lambda>seen x. if list_ex (\<lambda>y. same y x) seen then seen else seen @ [x]) [] xs"

text \<open>Sequencing of computations that may throw: the first exception is the result.\<close>

definition bindE :: "error + 'a \<Rightarrow> ('a \<Rightarrow> error + 'b) \<Rightarrow> error + 'b" where
  "bindE m f = (case m of Inl e \<Rightarrow> Inl e | Inr x \<Rightarrow> f x)"

text \<open>\<open>xs.map(f)\<close> with a callback that may throw: nothing catches inside \<open>map\<close>, so
  the first exception leaves it.\<close>

fun arrayMap :: "('a \<Rightarrow> error + 'b) \<Rightarrow> 'a list \<Rightarrow> error + 'b list" where
  "arrayMap f [] = Inr []"
| "arrayMap f (x # xs) = bindE (f x) (\<lambda>y. bindE (arrayMap f xs) (\<lambda>ys. Inr (y # ys)))"

text \<open>\<open>xs.forEach(f)\<close> on a state, with a callback that may throw.\<close>

fun forEachE :: "('a \<Rightarrow> 's \<Rightarrow> error + 's) \<Rightarrow> 'a list \<Rightarrow> 's \<Rightarrow> error + 's" where
  "forEachE f [] s = Inr s"
| "forEachE f (x # xs) s = bindE (f x s) (forEachE f xs)"

section \<open>The report, shared by both servers\<close>

text \<open>
  The repository holds two servers with the same endpoint: \<open>src/app.js\<close> reads the
  flight cards of the airport's page, \<open>src/unnamed/part_000\<close> reads the airport's JSON
  interface. Names of the second carry the suffix \<open>_api\<close>. The status of a flight is
  one of the strings \<open>on time\<close>, \<open>cancelled\<close>, \<open>delayed\<close>, a terminal is \<open>T2\<close> or \<open>T3\<close>,
  as in the source.
\<close>

record hour_bucket =
  T2 :: nat
  T3 :: nat
  total_n :: nat

record status_counts =
  on_time :: nat
  cancelled :: nat
  delayed :: nat

text \<open>A count of \<open>peak_hours\<close>; \<open>\<infinity>\<close> is JavaScript's \<open>Infinity\<close>.\<close>

record peak =
  hour :: string
  count_n :: enat

record peak_hours =
  max_flights :: peak
  lowest_flights :: peak

definition emptyBucket :: hour_bucket where
  "emptyBucket = \<lparr>T2 = 0, T3 = 0, total_n = 0\<rparr>"

text \<open>
  The body of \<open>if (!isNaN(flightHour))\<close> in the \<open>forEach\<close> of both handlers
  (app.js 216-224, part_000 201-209). \<open>flightCountByHour\<close> is a map from the parsed
  hour to its bucket.
\<close>

definition countFlight :: "bool \<Rightarrow> int \<Rightarrow> (int \<rightharpoonup> hour_bucket) \<Rightarrow> (int \<rightharpoonup> hour_bucket)" where
  "countFlight isT3 flightHour flightCountByHour =
     (let b = (case flightCountByHour flightHour of None \<Rightarrow> emptyBucket | Some b \<Rightarrow> b);
          b1 = (if isT3 then b\<lparr>T3 := T3 b + 1\<rparr> else b\<lparr>T2 := T2 b + 1\<rparr>)
      in flightCountByHour(flightHour \<mapsto> b1\<lparr>total_n := total_n b1 + 1\<rparr>))"

text \<open>The key \<open>`${hour}-${hour + 1}`\<close>.\<close>

definition hourKey :: "nat \<Rightarrow> string" where
  "hourKey h = decimal h @ ''-'' @ decimal (h + 1)"

text \<open>The variables of the loop \<open>for (let hour = 0; hour < 24; hour++)\<close> (app.js 252-265,
  part_000 238-251) and its body.\<close>

record hour_scan =
  maxFlights :: nat
  minFlights :: enat
  maxHour :: nat
  minHour :: nat
  flight_count_acc :: "(string \<times> hour_bucket) list"

definition hourScanInit :: hour_scan where
  "hourScanInit =
     \<lparr>maxFlights = 0, minFlights = \<infinity>, maxHour = 0, minHour = 0, flight_count_acc = []\<rparr>"

definition hourScanStep :: "(int \<rightharpoonup> hour_bucket) \<Rightarrow> hour_scan \<Rightarrow> nat \<Rightarrow> hour_scan" where
  "hourScanStep flightCountByHour s h =
     (let cnt = (case flightCountByHour (int h) of None \<Rightarrow> 0 | Some b \<Rightarrow> total_n b);
          s1 = s\<lparr>flight_count_acc := flight_count_acc s @
                 [(hourKey h, case flightCountByHour (int h) of None \<Rightarrow> emptyBucket | Some b \<Rightarrow> b)]\<rparr>;
          s2 = (if cnt > maxFlights s1 then s1\<lparr>maxFlights := cnt, maxHour := h\<rparr> else s1)
      in if enat cnt < minFlights s2 \<and> cnt > 0 then s2\<lparr>minFlights := enat cnt, minHour := h\<rparr> else s2)"

definition hourScan :: "(int \<rightharpoonup> hour_bucket) \<Rightarrow> hour_scan" where
  "hourScan flightCountByHour = foldl (hourScanStep flightCountByHour) hourScanInit [0..<24]"

text \<open>The three \<open>filter(...).length\<close> of \<open>flightStatuses\<close>.\<close>

definition flightStatuses :: "string list \<Rightarrow> status_counts" where
  "flightStatuses sts =
     \<lparr>on_time = length (filter (\<lambda>s. s = ''on time'') sts),
      cancelled = length (filter (\<lambda>s. s = ''cancelled'') sts),
      delayed = length (filter (\<lambda>s. s = ''delayed'') sts)\<rparr>"

text \<open>The answers of the endpoint: the report (200), \<open>res.status(400)\<close> with the message
  of the validation, \<open>res.status(500)\<close> for a caught exception.\<close>

datatype 'r response = Json 'r | Status400 string | Status500 error

text \<open>\<open>req.query\<close>: a parameter that the request does not carry is \<open>undefined\<close>.\<close>

record query =
  date :: jsval
  flightType :: jsval
  flightDirection :: jsval

datatype validation = Valid | Invalid string

text \<open>The day offset that the handlers add to the current date.\<close>

definition dateOffset :: "jsval \<Rightarrow> int" where
  "dateOffset d =
     (if strictEq d (JStr ''yesterday'') then - 1
      else if strictEq d (JStr ''tomorrow'') then 1
      else if strictEq d (JStr ''day_after_tomorrow'') then 2
      else 0)"

text \<open>A parameter with its default (\<open>const { date = 'today' } = req.query\<close>): the
  default stands in for \<open>undefined\<close> only.\<close>

definition withDefault :: "jsval \<Rightarrow> string \<Rightarrow> jsval" where
  "withDefault v d = (if v = JUndefined then JStr d else v)"

section \<open>The server on the JSON interface (src/unnamed/part_000)\<close>

text \<open>The three messages of \<open>validateParams\<close> (part_000 40, 44, 48; the first two also
  app.js 39, 43).\<close>

definition flightTypeMessage :: string where
  \<open>flightTypeMessage = ''Invalid flight type. Use "domestic" or "international".''\<close>

definition dateMessage :: string where
  \<open>dateMessage = ''Invalid date. Use "today", "yesterday", "tomorrow", or "day_after_tomorrow".''\<close>

definition flightDirectionMessage :: string where
  \<open>flightDirectionMessage = ''Invalid flight direction. Use "arrival" or "departure".''\<close>

text \<open>\<open>validateParams\<close>, part_000 34-52.\<close>

definition validateParams_api :: "jsval \<Rightarrow> jsval \<Rightarrow> jsval \<Rightarrow> validation" where
  "validateParams_api d ft fd =
     (if truthy ft \<and> \<not> arrayIncludes [''domestic'', ''international''] ft
      then Invalid flightTypeMessage
      else if truthy d \<and> \<not> arrayIncludes [''today'', ''yesterday'', ''tomorrow'', ''day_after_tomorrow''] d
      then Invalid dateMessage
      else if truthy fd \<and> \<not> arrayIncludes [''arrival'', ''departure''] fd
      then Invalid flightDirectionMessage
      else Valid)"

text \<open>The object that the callback of \<open>data.flightData.map\<close> returns, part_000 113-125.\<close>

record flight_api =
  id_api :: jsval
  scheduledTime_api :: jsval
  estimatedTime_api :: jsval
  status_api :: string
  statusColor_api :: jsval
  airline_api :: jsval
  airlineCode_api :: jsval
  flightNumber_api :: string
  location_api :: string
  terminal_api :: string
  rawStatus_api :: jsval

text \<open>
  The status of one raw record, part_000 88-98. \<open>flight\<close> is an element of
  \<open>data.flightData\<close>, any value of the payload.
\<close>

definition classify_api :: "jsval \<Rightarrow> error + string" where
  "classify_api flight =
     bindE (getProp flight ''status'') (\<lambda>st.
       if truthy st then
         bindE (callToLowerCase st) (\<lambda>statusLower.
           if includes_str statusLower ''cancel'' then Inr ''cancelled''
           else
             bindE (getProp flight ''estimatedTime'') (\<lambda>est.
             bindE (getProp flight ''scheduledTime'') (\<lambda>sched.
               if includes_str statusLower ''delay'' \<or>
                  (truthy est \<and> \<not> strictEq est sched \<and> \<not> strictEq est (JStr ''-''))
               then Inr ''delayed'' else Inr ''on time'')))
       else Inr ''on time'')"

text \<open>A property of a value whose properties have been read before: the access cannot
  throw any more.\<close>

definition field :: "jsval \<Rightarrow> string \<Rightarrow> jsval" where
  "field v name = (case getProp v name of Inr x \<Rightarrow> x | Inl e \<Rightarrow> JUndefined)"

text \<open>\<open>Array.isArray(v) ? v.join(', ') : other\<close>.\<close>

definition joinOr :: "jsval \<Rightarrow> string \<Rightarrow> string" where
  "joinOr v other = (case v of JArr xs \<Rightarrow> joinComma xs | _ \<Rightarrow> other)"

text \<open>\<open>flight.airline && flight.airline.toLowerCase().includes('qantas')\<close>, read as
  a condition.\<close>

definition isT3_api :: "jsval \<Rightarrow> error + bool" where
  "isT3_api air =
     (if truthy air then bindE (callToLowerCase air) (\<lambda>l. Inr (includes_str l ''qantas''))
      else Inr False)"

text \<open>The callback of \<open>data.flightData.map\<close>, part_000 86-126.\<close>

definition processFlight_api :: "jsval \<Rightarrow> error + flight_api" where
  "processFlight_api flight =
     bindE (classify_api flight) (\<lambda>status.
     bindE (isT3_api (field flight ''airline'')) (\<lambda>isT3.
       Inr \<lparr>id_api = field flight ''id'',
            scheduledTime_api = orElse (field flight ''scheduledTime'') (JStr []),
            estimatedTime_api = orElse (field flight ''estimatedTime'') (JStr []),
            status_api = status,
            statusColor_api = orElse (field flight ''statusColor'') (JStr []),
            airline_api = orElse (field flight ''airline'') (JStr []),
            airlineCode_api = orElse (field flight ''airlineCode'') (JStr []),
            flightNumber_api = joinOr (field flight ''flightNumbers'') [],
            location_api =
              joinOr (field flight ''destinations'') (joinOr (field flight ''origins'') []),
            terminal_api = (if isT3 then ''T3'' else ''T2''),
            rawStatus_api = orElse (field flight ''status'') (JStr ''Unknown'')\<rparr>))"

text \<open>
  \<open>getFlightData\<close>, part_000 55-146. \<open>axiosGet\<close> is the request to the airport: it
  returns the parsed body of the answer or throws. The call names the formatted date,
  the flight type and the direction of the address. The result is
  \<open>(totalFlights, flights)\<close>; every exception is thrown again by the \<open>catch\<close>.
\<close>

type_synonym call_api = "string \<times> jsval \<times> jsval"

definition getFlightData :: "(call_api \<Rightarrow> error + jsval) \<Rightarrow> call_api \<Rightarrow> error + (jsval \<times> flight_api list)" where
  "getFlightData axiosGet call =
     bindE (axiosGet call) (\<lambda>data.
       if \<not> truthy data \<or> \<not> truthy (field data ''flightData'')
       then Inl (Error ''Unexpected API response format'')
       else (case field data ''flightData'' of
               JArr raw \<Rightarrow>
                 bindE (arrayMap processFlight_api raw) (\<lambda>processedData.
                   Inr (field data ''totalFlightCount'', processedData))
             | _ \<Rightarrow> Inl (Error ''Unexpected API response format'')))"

text \<open>The callback of \<open>flights.forEach\<close>, part_000 194-211: \<open>split\<close> is a method of
  strings only.\<close>

definition countByHour_api :: "flight_api \<Rightarrow> (int \<rightharpoonup> hour_bucket) \<Rightarrow> error + (int \<rightharpoonup> hour_bucket)" where
  "countByHour_api flight flightCountByHour =
     (case scheduledTime_api flight of
        JStr t \<Rightarrow>
          (case parseInt (splitHead t) of
             None \<Rightarrow> Inr flightCountByHour
           | Some flightHour \<Rightarrow>
               Inr (countFlight (terminal_api flight = ''T3'') flightHour flightCountByHour))
      | _ \<Rightarrow> Inl TypeError)"

record report_api =
  airport_api :: string
  date_api :: string
  flight_type_api :: jsval
  flight_direction_api :: jsval
  total_flights_api :: jsval
  flight_count_api :: "(string \<times> hour_bucket) list"
  flight_statuses_api :: status_counts
  peak_hours_api :: peak_hours
  airlines_api :: "jsval list"
  locations_api :: "string list"
  sample_flights_api :: "flight_api list"
  version_api :: string

text \<open>
  The report of the handler, part_000 179-269, from the formatted date, the parameters
  and the result of \<open>getFlightData\<close>. The time stamp \<open>processed_at\<close> of the metadata is
  left out.
\<close>

definition buildReport_api :: "string \<Rightarrow> jsval \<Rightarrow> jsval \<Rightarrow> jsval \<Rightarrow> flight_api list \<Rightarrow> error + report_api" where
  "buildReport_api formatted ft fd totalFlights flights =
     bindE (forEachE countByHour_api flights Map.empty) (\<lambda>flightCountByHour.
       let s = hourScan flightCountByHour
       in Inr \<lparr>airport_api = ''Sydney Airport'',
               date_api = formatted,
               flight_type_api = ft,
               flight_direction_api = fd,
               total_flights_api = totalFlights,
               flight_count_api = flight_count_acc s,
               flight_statuses_api = flightStatuses (map status_api flights),
               peak_hours_api =
                 \<lparr>max_flights = \<lparr>hour = hourKey (maxHour s), count_n = enat (maxFlights s)\<rparr>,
                  lowest_flights =
                    \<lparr>hour = hourKey (minHour s),
                     count_n = (if minFlights s \<noteq> \<infinity> then minFlights s else 0)\<rparr>\<rparr>,
               airlines_api = filter truthy (setValues strictEq (map airline_api flights)),
               locations_api = filter (\<lambda>l. l \<noteq> []) (setValues (=) (map location_api flights)),
               sample_flights_api = take 5 flights,
               version_api = ''1.0''\<rparr>)"

text \<open>
  The handler of \<open>GET /api/flights\<close>, part_000 149-281. \<open>formatDate\<close> gives the text of
  the current date moved by a number of days. The result is the answer and the list of
  the requests sent to the airport.
\<close>

definition flightsHandler_api :: "(int \<Rightarrow> string) \<Rightarrow> (call_api \<Rightarrow> error + jsval) \<Rightarrow> query \<Rightarrow> report_api response \<times> call_api list" where
  "flightsHandler_api formatDate axiosGet q =
     (let d = withDefault (date q) ''today'';
          ft = withDefault (flightType q) ''domestic'';
          fd = withDefault (flightDirection q) ''departure''
      in case validateParams_api d ft fd of
           Invalid message \<Rightarrow> (Status400 message, [])
         | Valid \<Rightarrow>
             (let call = (formatDate (dateOffset d), ft, fd)
              in (case bindE (getFlightData axiosGet call) (\<lambda>(totalFlights, flights).
                         buildReport_api (formatDate (dateOffset d)) ft fd totalFlights flights) of
                    Inl e \<Rightarrow> Status500 e
                  | Inr r \<Rightarrow> Json r,
                  [call])))"

section \<open>The server on the airport's page (src/app.js)\<close>

text \<open>\<open>validateParams\<close>, app.js 34-47.\<close>

definition validateParams :: "jsval \<Rightarrow> jsval \<Rightarrow> validation" where
  "validateParams d ft =
     (if truthy ft \<and> \<not> arrayIncludes [''domestic'', ''international''] ft
      then Invalid flightTypeMessage
      else if truthy d \<and> \<not> arrayIncludes [''today'', ''yesterday'', ''tomorrow'', ''day_after_tomorrow''] d
      then Invalid dateMessage
      else Valid)"

text \<open>
  What the selectors of app.js 92-122 find in one \<open>.flight-card\<close>: \<open>None\<close> is the
  \<open>null\<close> of \<open>querySelector\<close>. An element found is kept as its \<open>textContent\<close>, the
  status element also with its \<open>classList\<close>; \<open>delayedTimeSmall\<close> tells whether the card
  has an element of class \<open>delayed-time-small\<close>.
\<close>

record status_element =
  textContent :: string
  classList :: "string list"

record flight_card =
  scheduledTimeElement :: "string option"
  flightNumberElement :: "string option"
  originElement :: "string option"
  statusContainer :: "status_element option option"
  delayedTimeSmall :: bool
  airlineElement :: "string option"

text \<open>The object pushed for one card, app.js 129-136.\<close>

record flight =
  scheduledTime :: string
  status :: string
  airline :: string
  flightNumber :: string
  origin :: string
  rawStatus :: string

text \<open>\<open>statusContainer ? statusContainer.querySelector('.status') : null\<close>.\<close>

definition statusElement :: "flight_card \<Rightarrow> status_element option" where
  "statusElement flightCard = (case statusContainer flightCard of None \<Rightarrow> None | Some found \<Rightarrow> found)"

text \<open>The status of one card, app.js 103-119.\<close>

definition classify :: "flight_card \<Rightarrow> string" where
  "classify flightCard =
     (case statusElement flightCard of
        None \<Rightarrow> ''on time''
      | Some el \<Rightarrow>
          (let statusText = toLowerCase (trim (textContent el));
               hasRedClass = List.member (classList el) ''red''
           in if includes_str statusText ''cancelled'' \<or> hasRedClass then ''cancelled''
              else if includes_str statusText ''delayed'' \<or> List.member (classList el) ''amber'' \<or>
                      delayedTimeSmall flightCard
              then ''delayed'' else ''on time''))"

text \<open>\<open>element ? element.textContent.trim() : ''\<close>.\<close>

definition trimmedText :: "string option \<Rightarrow> string" where
  "trimmedText element = (case element of None \<Rightarrow> [] | Some t \<Rightarrow> trim t)"

text \<open>The body of the \<open>try\<close> block for one card, app.js 90-136: the flight to push, or
  the exception thrown.\<close>

definition processCard :: "flight_card \<Rightarrow> error + flight" where
  "processCard flightCard =
     Inr \<lparr>scheduledTime = trimmedText (scheduledTimeElement flightCard),
          status = classify flightCard,
          airline = toLowerCase (trimmedText (airlineElement flightCard)),
          flightNumber = trimmedText (flightNumberElement flightCard),
          origin = trimmedText (originElement flightCard),
          rawStatus = (case statusElement flightCard of None \<Rightarrow> ''Unknown'' | Some el \<Rightarrow> trim (textContent el))\<rparr>"

text \<open>\<open>flightCards.forEach\<close> with its \<open>try\<close>/\<open>catch\<close>, app.js 89-141, for any body:
  a card whose body throws pushes nothing, and the loop goes on.\<close>

definition forEachTry :: "('c \<Rightarrow> error + 'f) \<Rightarrow> 'c list \<Rightarrow> 'f list" where
  "forEachTry body cards =
     foldl (\<lambda>flights flightCard. case body flightCard of Inr f \<Rightarrow> flights @ [f] | Inl err \<Rightarrow> flights) [] cards"

text \<open>
  \<open>getFlightTimes\<close>, app.js 50-166. \<open>loadPage\<close> is the browser: it returns the flight
  cards of the page or throws (launch, navigation). The call names the formatted date
  and the terminal type of the address. \<open>waitForSelector('.flight-card')\<close> runs against
  a timer (75-82): on a page without a flight card the timer wins and
  \<open>Timeout waiting for flight data\<close> is thrown. The cards that \<open>page.evaluate\<close> reads are
  those of the page waited for. Every exception is thrown again by the \<open>catch\<close>.
\<close>

type_synonym call_page = "string \<times> string"

definition getFlightTimes :: "(call_page \<Rightarrow> error + flight_card list) \<Rightarrow> call_page \<Rightarrow> error + flight list" where
  "getFlightTimes loadPage call =
     bindE (loadPage call) (\<lambda>flightCards.
       if flightCards = [] then Inl (Error ''Timeout waiting for flight data'')
       else Inr (forEachTry processCard flightCards))"

text \<open>The callback of \<open>flightData.forEach\<close>, app.js 210-226.\<close>

definition countByHour :: "(int \<rightharpoonup> hour_bucket) \<Rightarrow> flight \<Rightarrow> (int \<rightharpoonup> hour_bucket)" where
  "countByHour flightCountByHour fl =
     (case parseInt (splitHead (scheduledTime fl)) of
        None \<Rightarrow> flightCountByHour
      | Some flightHour \<Rightarrow>
          countFlight (includes_str (airline fl) ''qantas'') flightHour flightCountByHour)"

record report =
  airport :: string
  report_date :: string
  flight_type :: jsval
  total_flights :: nat
  flight_count :: "(string \<times> hour_bucket) list"
  flight_statuses :: status_counts
  peak_hours :: peak_hours
  airlines :: "string list"
  origins :: "string list"
  sample_flights :: "flight list"
  version :: string

text \<open>
  The report of the handler, app.js 195-282, from the formatted date, the flight type
  and the result of \<open>getFlightTimes\<close>. The time stamp \<open>processed_at\<close> of the metadata is
  left out.
\<close>

definition buildReport :: "string \<Rightarrow> jsval \<Rightarrow> flight list \<Rightarrow> report" where
  "buildReport formatted ft flightData =
     (let s = hourScan (foldl countByHour Map.empty flightData)
      in \<lparr>airport = ''Sydney Airport'',
          report_date = formatted,
          flight_type = ft,
          total_flights = length flightData,
          flight_count = flight_count_acc s,
          flight_statuses = flightStatuses (map status flightData),
          peak_hours =
            \<lparr>max_flights = \<lparr>hour = hourKey (maxHour s), count_n = enat (maxFlights s)\<rparr>,
             lowest_flights = \<lparr>hour = hourKey (minHour s), count_n = minFlights s\<rparr>\<rparr>,
          airlines = filter (\<lambda>a. a \<noteq> []) (setValues (=) (map airline flightData)),
          origins = filter (\<lambda>a. a \<noteq> []) (setValues (=) (map origin flightData)),
          sample_flights = take 5 flightData,
          version = ''1.1''\<rparr>)"

text \<open>
  The handler of \<open>GET /api/flights\<close>, app.js 169-294. It reads \<open>date\<close> and
  \<open>flightType\<close> of the query and nothing else. The result is the answer and the list of
  the pages loaded.
\<close>

definition flightsHandler :: "(int \<Rightarrow> string) \<Rightarrow> (call_page \<Rightarrow> error + flight_card list) \<Rightarrow> query \<Rightarrow> report response \<times> call_page list" where
  "flightsHandler formatDate loadPage q =
     (let d = withDefault (date q) ''today'';
          ft = withDefault (flightType q) ''domestic''
      in case validateParams d ft of
           Invalid message \<Rightarrow> (Status400 message, [])
         | Valid \<Rightarrow>
             (let terminalType = (if strictEq ft (JStr ''domestic'') then ''domestic'' else ''international'');
                  call = (formatDate (dateOffset d), terminalType)
              in (case getFlightTimes loadPage call of
                    Inl e \<Rightarrow> Status500 e
                  | Inr flightData \<Rightarrow> Json (buildReport (formatDate (dateOffset d)) ft flightData),
                  [call])))"

section \<open>Quantities of the properties\<close>

text \<open>The hour that the handlers parse from a scheduled time: the leading token before
  the first colon, read by \<open>parseInt\<close>; \<open>None\<close> when the parse fails.\<close>

definition flightHour :: "flight \<Rightarrow> int option" where
  "flightHour fl = parseInt (splitHead (scheduledTime fl))"

definition flightHour_api :: "flight_api \<Rightarrow> int option" where
  "flightHour_api fl = (case scheduledTime_api fl of JStr t \<Rightarrow> parseInt (splitHead t) | _ \<Rightarrow> None)"

text \<open>A parsed hour outside 0..23.\<close>

definition outsideDay :: "int option \<Rightarrow> bool" where
  "outsideDay ho = (case ho of None \<Rightarrow> False | Some h \<Rightarrow> h < 0 \<or> 23 < h)"

text \<open>The bucket that the loop over the hours reads at a key: the stored one, or the
  zero bucket.\<close>

definition bucketAt :: "(int \<rightharpoonup> hour_bucket) \<Rightarrow> int \<Rightarrow> hour_bucket" where
  "bucketAt m h = (case m h of None \<Rightarrow> emptyBucket | Some b \<Rightarrow> b)"

text \<open>One step of either \<open>forEach\<close>, for an hour function \<open>hr\<close> and a terminal test
  \<open>t3\<close>, and the bucket of an hour counted directly from the list.\<close>

definition tallyStep :: "('f \<Rightarrow> int option) \<Rightarrow> ('f \<Rightarrow> bool) \<Rightarrow> (int \<rightharpoonup> hour_bucket) \<Rightarrow> 'f \<Rightarrow> (int \<rightharpoonup> hour_bucket)" where
  "tallyStep hr t3 m f = (case hr f of None \<Rightarrow> m | Some h \<Rightarrow> countFlight (t3 f) h m)"

definition tallied :: "('f \<Rightarrow> int option) \<Rightarrow> ('f \<Rightarrow> bool) \<Rightarrow> 'f list \<Rightarrow> int \<Rightarrow> hour_bucket" where
  "tallied hr t3 fs h =
     \<lparr>T2 = length (filter (\<lambda>f. hr f = Some h \<and> \<not> t3 f) fs),
      T3 = length (filter (\<lambda>f. hr f = Some h \<and> t3 f) fs),
      total_n = length (filter (\<lambda>f. hr f = Some h) fs)\<rparr>"

definition addBucket :: "hour_bucket \<Rightarrow> hour_bucket \<Rightarrow> hour_bucket" where
  "addBucket a b = \<lparr>T2 = T2 a + T2 b, T3 = T3 a + T3 b, total_n = total_n a + total_n b\<rparr>"

text \<open>The sum of \<open>flight_count[*].total\<close> over the entries of a report.\<close>

definition sumTotals :: "(string \<times> hour_bucket) list \<Rightarrow> nat" where
  "sumTotals entries = sum_list (map (\<lambda>e. total_n (snd e)) entries)"

text \<open>A value that is a string.\<close>

definition isString :: "jsval \<Rightarrow> bool" where
  "isString v = (case v of JStr t \<Rightarrow> True | _ \<Rightarrow> False)"

text \<open>The terminal tests of the two \<open>forEach\<close> callbacks (app.js 213, part_000 198).\<close>

definition isT3 :: "flight \<Rightarrow> bool" where
  "isT3 fl = includes_str (airline fl) ''qantas''"

definition isT3_flight_api :: "flight_api \<Rightarrow> bool" where
  "isT3_flight_api fl = (terminal_api fl = ''T3'')"

text \<open>The flights of a list whose hour does not parse, and those whose hour parses
  outside 0..23.\<close>

definition countUnparsable :: "flight list \<Rightarrow> nat" where
  "countUnparsable fs = length (filter (\<lambda>f. flightHour f = None) fs)"
definition countOutsideDay :: "flight list \<Rightarrow> nat" where
  "countOutsideDay fs = length (filter (\<lambda>f. outsideDay (flightHour f)) fs)"
definition countUnparsable_api :: "flight_api list \<Rightarrow> nat" where
  "countUnparsable_api fs = length (filter (\<lambda>f. flightHour_api f = None) fs)"
definition countOutsideDay_api :: "flight_api list \<Rightarrow> nat" where
  "countOutsideDay_api fs = length (filter (\<lambda>f. outsideDay (flightHour_api f)) fs)"

section \<open>Example inputs\<close>

text \<open>A flight card with a time, an airline and a status text, and the raw record with
  the same three fields.\<close>

definition cardOf :: "string \<Rightarrow> string \<Rightarrow> string \<Rightarrow> flight_card" where
  "cardOf t a st =
     \<lparr>scheduledTimeElement = Some t, flightNumberElement = None, originElement = None,
      statusContainer = Some (Some \<lparr>textContent = st, classList = []\<rparr>),
      delayedTimeSmall = False, airlineElement = Some a\<rparr>"

definition rawOf :: "string \<Rightarrow> string \<Rightarrow> string \<Rightarrow> jsval" where
  "rawOf t a st = JObj [(''scheduledTime'', JStr t), (''airline'', JStr a), (''status'', JStr st)]"

text \<open>Three cards, the flights that app.js makes of them, the three records and the
  flights that part_000 makes of them. The second flight is scheduled at \<open>25:10\<close>, the
  time of the third does not parse.\<close>

definition exampleCards :: "flight_card list" where
  "exampleCards = [cardOf ''09:15'' ''Qantas'' ''On Time'', cardOf ''25:10'' ''Jetstar'' ''Delayed'',
     cardOf ''soon'' ''Jetstar'' ''Cancelled'']"

definition lateFlight :: flight where
  "lateFlight = \<lparr>scheduledTime = ''25:10'', status = ''delayed'', airline = ''jetstar'',
     flightNumber = [], origin = [], rawStatus = ''Delayed''\<rparr>"

definition morningFlight :: flight where
  "morningFlight = \<lparr>scheduledTime = ''09:15'', status = ''on time'', airline = ''qantas'',
     flightNumber = [], origin = [], rawStatus = ''On Time''\<rparr>"

definition untimedFlight :: flight where
  "untimedFlight = \<lparr>scheduledTime = ''soon'', status = ''cancelled'', airline = ''jetstar'',
     flightNumber = [], origin = [], rawStatus = ''Cancelled''\<rparr>"

definition exampleFlights :: "flight list" where
  "exampleFlights = [morningFlight, lateFlight, untimedFlight]"

definition exampleRecords :: "jsval list" where
  "exampleRecords = [rawOf ''09:15'' ''Qantas'' ''On Time'', rawOf ''25:10'' ''Jetstar'' ''Delayed'',
     rawOf ''soon'' ''Jetstar'' ''Cancelled'']"

definition flightOf_api :: "string \<Rightarrow> string \<Rightarrow> string \<Rightarrow> string \<Rightarrow> string \<Rightarrow> flight_api" where
  "flightOf_api t a raw st term =
     \<lparr>id_api = JUndefined, scheduledTime_api = JStr t, estimatedTime_api = JStr [],
      status_api = st, statusColor_api = JStr [], airline_api = JStr a, airlineCode_api = JStr [],
      flightNumber_api = [], location_api = [], terminal_api = term, rawStatus_api = JStr raw\<rparr>"

definition lateFlight_api :: flight_api where
  "lateFlight_api = flightOf_api ''25:10'' ''Jetstar'' ''Delayed'' ''delayed'' ''T2''"

definition morningFlight_api :: flight_api where
  "morningFlight_api = flightOf_api ''09:15'' ''Qantas'' ''On Time'' ''on time'' ''T3''"

definition untimedFlight_api :: flight_api where
  "untimedFlight_api = flightOf_api ''soon'' ''Jetstar'' ''Cancelled'' ''cancelled'' ''T2''"

definition exampleFlights_api :: "flight_api list" where
  "exampleFlights_api = [morningFlight_api, lateFlight_api, untimedFlight_api]"

text \<open>Records of the JSON interface: one without a status and with an estimated time
  that differs from the scheduled time, the same with the status \<open>On Time\<close>, one whose
  status is the number 404, and one whose status names a cancellation and a delay.\<close>

definition recordWithoutStatus :: jsval where
  "recordWithoutStatus = JObj [(''estimatedTime'', JStr ''10:30''), (''scheduledTime'', JStr ''10:00'')]"

definition recordLateEstimate :: jsval where
  "recordLateEstimate =
     JObj [(''status'', JStr ''On Time''), (''estimatedTime'', JStr ''10:30''),
           (''scheduledTime'', JStr ''10:00'')]"

definition recordNumericStatus :: jsval where
  "recordNumericStatus = JObj [(''status'', JNum ''404''), (''scheduledTime'', JStr ''10:00'')]"

definition recordCancelled :: jsval where
  "recordCancelled = rawOf ''09:15'' ''Qantas'' ''Cancelled - was delayed''"

text \<open>Cards with the status texts \<open>Cancel\<close> and \<open>Cancelled\<close>, and one without a status
  container.\<close>

definition cancelCard :: flight_card where
  "cancelCard = cardOf ''09:15'' ''Qantas'' ''Cancel''"

definition cancelledCard :: flight_card where
  "cancelledCard = cardOf ''09:15'' ''Qantas'' ''Cancelled''"

definition bareCard :: flight_card where
  "bareCard = cardOf ''09:15'' ''Qantas'' [] \<lparr>statusContainer := None\<rparr>"

text \<open>The flights that the two servers make of a card and of a record of Qantas
  Airways at 09:15.\<close>

definition qantasFlight :: flight where
  "qantasFlight = \<lparr>scheduledTime = ''09:15'', status = ''on time'', airline = ''qantas airways'',
     flightNumber = [], origin = [], rawStatus = ''On Time''\<rparr>"

definition qantasFlight_api :: flight_api where
  "qantasFlight_api = flightOf_api ''09:15'' ''Qantas Airways'' ''On Time'' ''on time'' ''T3''"

text \<open>A clock, a query, a payload without flights, the page of the three example
  cards, and a payload of two records, the first with the numeric status.\<close>

definition fixedDate :: "int \<Rightarrow> string" where
  "fixedDate k = ''2026-11-03''"

definition queryOf :: "jsval \<Rightarrow> jsval \<Rightarrow> jsval \<Rightarrow> query" where
  "queryOf d ft fd = \<lparr>date = d, flightType = ft, flightDirection = fd\<rparr>"

definition emptySource :: "call_api \<Rightarrow> error + jsval" where
  "emptySource call = Inr (JObj [(''totalFlightCount'', JNum ''0''), (''flightData'', JArr [])])"

definition examplePage :: "call_page \<Rightarrow> error + flight_card list" where
  "examplePage call = Inr exampleCards"

definition badPayload :: jsval where
  "badPayload =
     JObj [(''totalFlightCount'', JNum ''2''),
           (''flightData'', JArr [recordNumericStatus, rawOf ''09:15'' ''Qantas'' ''On Time''])]"

definition badSource :: "call_api \<Rightarrow> error + jsval" where
  "badSource call = Inr badPayload"

text \<open>An answer that is a report.\<close>

definition isJson :: "'r response \<Rightarrow> bool" where
  "isJson res = (case res of Json r \<Rightarrow> True | _ \<Rightarrow> False)"

section \<open>The hourly tally\<close>

lemma bucketAt_countFlight:
  "bucketAt (countFlight q h m) k =
     (if k = h then addBucket (bucketAt m h) \<lparr>T2 = (if q then 0 else 1), T3 = (if q then 1 else 0), total_n = 1\<rparr>
      else bucketAt m k)"
  by (simp add: bucketAt_def countFlight_def addBucket_def emptyBucket_def Let_def split: option.splits)

lemma bucketAt_tallyStep:
  "bucketAt (tallyStep hr t3 m f) k = addBucket (bucketAt m k) (tallied hr t3 [f] k)"
  by (cases "hr f") (auto simp: tallyStep_def bucketAt_countFlight tallied_def addBucket_def)

lemma tallied_Cons:
  "tallied hr t3 (f # fs) k = addBucket (tallied hr t3 [f] k) (tallied hr t3 fs k)"
  by (simp add: tallied_def addBucket_def)

lemma addBucket_assoc: "addBucket (addBucket a b) c = addBucket a (addBucket b c)"
  by (simp add: addBucket_def)

lemma bucketAt_foldl:
  "bucketAt (foldl (tallyStep hr t3) m fs) k = addBucket (bucketAt m k) (tallied hr t3 fs k)"
proof (induction fs arbitrary: m)
  case Nil
  show ?case by (simp add: tallied_def addBucket_def)
next
  case (Cons f fs)
  have "bucketAt (foldl (tallyStep hr t3) m (f # fs)) k
        = addBucket (bucketAt (tallyStep hr t3 m f) k) (tallied hr t3 fs k)"
    using Cons.IH by simp
  also have "\<dots> = addBucket (bucketAt m k) (tallied hr t3 (f # fs) k)"
    by (simp only: bucketAt_tallyStep addBucket_assoc tallied_Cons [symmetric])
  finally show ?case .
qed

lemma bucketAt_empty: "bucketAt Map.empty k = emptyBucket"
  by (simp add: bucketAt_def)

lemma bucketAt_tally_empty:
  "bucketAt (foldl (tallyStep hr t3) Map.empty fs) k = tallied hr t3 fs k"
  by (simp add: bucketAt_foldl bucketAt_empty addBucket_def emptyBucket_def tallied_def)

lemma hourScanStep_bucketAt:
  "hourScanStep m s h =
     (let cnt = total_n (bucketAt m (int h));
          s1 = s\<lparr>flight_count_acc := flight_count_acc s @ [(hourKey h, bucketAt m (int h))]\<rparr>;
          s2 = (if cnt > maxFlights s1 then s1\<lparr>maxFlights := cnt, maxHour := h\<rparr> else s1)
      in if enat cnt < minFlights s2 \<and> cnt > 0 then s2\<lparr>minFlights := enat cnt, minHour := h\<rparr> else s2)"
  by (cases "m (int h)") (simp_all add: hourScanStep_def bucketAt_def emptyBucket_def split del: if_split)

lemma foldl_hourScanStep_cong:
  "(\<And>h. h \<in> set hs \<Longrightarrow> bucketAt m (int h) = bucketAt m' (int h)) \<Longrightarrow>
   foldl (hourScanStep m) s hs = foldl (hourScanStep m') s hs"
proof (induction hs arbitrary: s)
  case Nil
  show ?case by simp
next
  case (Cons h hs)
  have "hourScanStep m s h = hourScanStep m' s h"
    using Cons.prems [of h] by (simp add: hourScanStep_bucketAt)
  then show ?case using Cons.IH Cons.prems by simp
qed

lemma hourScan_cong:
  "(\<And>h. h < 24 \<Longrightarrow> bucketAt m (int h) = bucketAt m' (int h)) \<Longrightarrow> hourScan m = hourScan m'"
  unfolding hourScan_def by (rule foldl_hourScanStep_cong) simp

lemma flight_count_acc_step:
  "flight_count_acc (hourScanStep m s h) = flight_count_acc s @ [(hourKey h, bucketAt m (int h))]"
  by (simp add: hourScanStep_bucketAt Let_def)

lemma flight_count_acc_foldl:
  "flight_count_acc (foldl (hourScanStep m) s hs) =
     flight_count_acc s @ map (\<lambda>h. (hourKey h, bucketAt m (int h))) hs"
  by (induction hs arbitrary: s) (simp_all add: flight_count_acc_step)

lemma flight_count_acc_hourScan:
  "flight_count_acc (hourScan m) = map (\<lambda>h. (hourKey h, bucketAt m (int h))) [0..<24]"
  by (simp add: hourScan_def flight_count_acc_foldl hourScanInit_def)

section \<open>The empty flight list\<close>

lemma hourScan_empty:
  "hourScan Map.empty =
     \<lparr>maxFlights = 0, minFlights = \<infinity>, maxHour = 0, minHour = 0,
      flight_count_acc = map (\<lambda>h. (hourKey h, emptyBucket)) [0..<24]\<rparr>"
  by code_simp

lemma hourKey_0: "hourKey 0 = ''0-1''"
  by code_simp

lemma flightStatuses_Nil: "flightStatuses [] = \<lparr>on_time = 0, cancelled = 0, delayed = 0\<rparr>"
  by (simp add: flightStatuses_def)


lemma buildReport_api_Nil:
  "\<exists>r. buildReport_api formatted ft fd totalFlights [] = Inr r \<and>
       flight_count_api r = map (\<lambda>h. (hourKey h, emptyBucket)) [0..<24] \<and>
       flight_statuses_api r = \<lparr>on_time = 0, cancelled = 0, delayed = 0\<rparr> \<and>
       peak_hours_api r =
         \<lparr>max_flights = \<lparr>hour = ''0-1'', count_n = 0\<rparr>,
          lowest_flights = \<lparr>hour = ''0-1'', count_n = 0\<rparr>\<rparr>"
  by (simp add: buildReport_api_def bindE_def hourScan_empty Let_def hourKey_0 zero_enat_def
      flightStatuses_Nil)

text \<open>app.js reports \<open>Infinity\<close> as the lowest count whenever no flight falls into an hour
  of the day, as for a single card whose time does not parse.\<close>

lemma trough_without_hours:
  "lowest_flights (peak_hours (buildReport ''2026-11-03'' (JStr ''domestic'') [untimedFlight])) =
     \<lparr>hour = ''0-1'', count_n = \<infinity>\<rparr>"
  by code_simp

section \<open>The two tallies as one fold\<close>

lemma countByHour_tallyStep: "countByHour = tallyStep flightHour isT3"
  by (intro ext) (simp add: countByHour_def tallyStep_def flightHour_def isT3_def split: option.splits)

lemma countByHour_api_string:
  "isString (scheduledTime_api g) \<Longrightarrow>
   countByHour_api g m = Inr (tallyStep flightHour_api isT3_flight_api m g)"
  by (cases "scheduledTime_api g")
     (simp_all add: isString_def countByHour_api_def tallyStep_def flightHour_api_def
        isT3_flight_api_def split: option.splits)

lemma countByHour_api_other:
  "\<not> isString (scheduledTime_api g) \<Longrightarrow> countByHour_api g m = Inl TypeError"
  by (cases "scheduledTime_api g") (simp_all add: isString_def countByHour_api_def)

lemma forEachE_countByHour_api:
  "forEachE countByHour_api gs m =
     (if list_all (\<lambda>g. isString (scheduledTime_api g)) gs
      then Inr (foldl (tallyStep flightHour_api isT3_flight_api) m gs) else Inl TypeError)"
proof (induction gs arbitrary: m)
  case Nil
  show ?case by simp
next
  case (Cons g gs)
  show ?case
  proof (cases "isString (scheduledTime_api g)")
    case True
    then show ?thesis using Cons.IH by (simp add: countByHour_api_string bindE_def)
  next
    case False
    then show ?thesis by (simp add: countByHour_api_other bindE_def)
  qed
qed

lemma hourScan_tally:
  "(\<And>h. h < 24 \<Longrightarrow> tallied hr t3 fs (int h) = tallied hr' t3' fs' (int h)) \<Longrightarrow>
   hourScan (foldl (tallyStep hr t3) Map.empty fs) = hourScan (foldl (tallyStep hr' t3') Map.empty fs')"
  by (rule hourScan_cong) (simp add: bucketAt_tally_empty)

lemma flight_count_buildReport:
  "flight_count (buildReport formatted ft fs) =
     map (\<lambda>h. (hourKey h, tallied flightHour isT3 fs (int h))) [0..<24]"
  by (simp add: buildReport_def Let_def flight_count_acc_hourScan countByHour_tallyStep
      bucketAt_tally_empty)

lemma hourScan_buildReport:
  "flight_count (buildReport formatted ft fs) = flight_count_acc (hourScan (foldl (tallyStep flightHour isT3) Map.empty fs))"
  "peak_hours (buildReport formatted ft fs) =
     (let s = hourScan (foldl (tallyStep flightHour isT3) Map.empty fs)
      in \<lparr>max_flights = \<lparr>hour = hourKey (maxHour s), count_n = enat (maxFlights s)\<rparr>,
          lowest_flights = \<lparr>hour = hourKey (minHour s), count_n = minFlights s\<rparr>\<rparr>)"
  "flight_statuses (buildReport formatted ft fs) = flightStatuses (map status fs)"
  "sample_flights (buildReport formatted ft fs) = take 5 fs"
  by (simp_all add: buildReport_def Let_def countByHour_tallyStep)

lemma buildReport_api_Inr:
  "list_all (\<lambda>g. isString (scheduledTime_api g)) gs \<Longrightarrow>
   \<exists>r. buildReport_api formatted ft fd totalFlights gs = Inr r"
  by (simp add: buildReport_api_def forEachE_countByHour_api bindE_def Let_def)

lemma buildReport_api_InrD:
  assumes "buildReport_api formatted ft fd totalFlights gs = Inr r"
  shows "list_all (\<lambda>g. isString (scheduledTime_api g)) gs"
    and "flight_count_api r = flight_count_acc (hourScan (foldl (tallyStep flightHour_api isT3_flight_api) Map.empty gs))"
    and "peak_hours_api r =
           (let s = hourScan (foldl (tallyStep flightHour_api isT3_flight_api) Map.empty gs)
            in \<lparr>max_flights = \<lparr>hour = hourKey (maxHour s), count_n = enat (maxFlights s)\<rparr>,
                lowest_flights = \<lparr>hour = hourKey (minHour s),
                  count_n = (if minFlights s \<noteq> \<infinity> then minFlights s else 0)\<rparr>\<rparr>)"
    and "flight_statuses_api r = flightStatuses (map status_api gs)"
    and "total_flights_api r = totalFlights"
    and "sample_flights_api r = take 5 gs"
  using assms
  by (auto simp add: buildReport_api_def forEachE_countByHour_api bindE_def Let_def split: if_splits)

lemma flight_count_api_tallied:
  "buildReport_api formatted ft fd totalFlights gs = Inr r \<Longrightarrow>
   flight_count_api r = map (\<lambda>h. (hourKey h, tallied flightHour_api isT3_flight_api gs (int h))) [0..<24]"
  by (simp add: buildReport_api_InrD(2) flight_count_acc_hourScan bucketAt_tally_empty)

lemma flightHour_api_string: "flightHour_api g = Some k \<Longrightarrow> isString (scheduledTime_api g)"
  by (cases "scheduledTime_api g") (simp_all add: flightHour_api_def isString_def)

section \<open>The example inputs are flights of the servers\<close>

lemma exampleFlights_from_cards: "forEachTry processCard exampleCards = exampleFlights"
  by code_simp

lemma exampleFlights_from_records: "arrayMap processFlight_api exampleRecords = Inr exampleFlights_api"
  by code_simp

lemma exampleFlights_api_strings:
  "list_all (\<lambda>g. isString (scheduledTime_api g)) exampleFlights_api"
  by code_simp

lemma lateFlight_hour: "flightHour lateFlight = Some 25"
  by code_simp

lemma lateFlight_api_hour: "flightHour_api lateFlight_api = Some 25"
  by code_simp

section \<open>The flights of a page\<close>





lemma withDefault_truthy: "truthy v \<Longrightarrow> withDefault v d = v"
  by (cases v) (simp_all add: withDefault_def)

lemma flightsHandler_valid:
  assumes "validateParams (withDefault (date q) ''today'') (withDefault (flightType q) ''domestic'') = Valid"
    and "call = (formatDate (dateOffset (withDefault (date q) ''today'')),
                 if strictEq (withDefault (flightType q) ''domestic'') (JStr ''domestic'')
                 then ''domestic'' else ''international'')"
  shows "snd (flightsHandler formatDate loadPage q) = [call]"
    and "getFlightTimes loadPage call = Inl e \<Longrightarrow>
         fst (flightsHandler formatDate loadPage q) = Status500 e"
    and "getFlightTimes loadPage call = Inr flightData \<Longrightarrow>
         fst (flightsHandler formatDate loadPage q) =
           Json (buildReport (fst call) (withDefault (flightType q) ''domestic'') flightData)"
  using assms by (simp_all add: flightsHandler_def Let_def)


lemma sideways_valid: "validateParams (JStr ''today'') (JStr ''domestic'') = Valid"
  by code_simp

lemma getFlightTimes_examplePage: "getFlightTimes examplePage call = Inr exampleFlights"
  by (simp add: getFlightTimes_def examplePage_def bindE_def exampleFlights_from_cards)
    (simp add: exampleCards_def)




section \<open>The hourly totals and the number of flights\<close>

lemma length_filter_disjoint:
  "(\<And>x. \<not> (P x \<and> Q x)) \<Longrightarrow>
   length (filter (\<lambda>x. P x \<or> Q x) xs) = length (filter P xs) + length (filter Q xs)"
  by (induction xs) auto

lemma sum_hours:
  "sum_list (map (\<lambda>h. length (filter (\<lambda>f. hr f = Some (int h)) fs)) [0..<n]) =
   length (filter (\<lambda>f. \<exists>h<n. hr f = Some (int h)) fs)"
proof (induction n)
  case 0
  show ?case by simp
next
  case (Suc n)
  have "(\<lambda>f. \<exists>h<Suc n. hr f = Some (int h)) =
        (\<lambda>f. (\<exists>h<n. hr f = Some (int h)) \<or> hr f = Some (int n))"
    by (auto simp: less_Suc_eq)
  moreover have "length (filter (\<lambda>f. (\<exists>h<n. hr f = Some (int h)) \<or> hr f = Some (int n)) fs) =
        length (filter (\<lambda>f. \<exists>h<n. hr f = Some (int h)) fs) + length (filter (\<lambda>f. hr f = Some (int n)) fs)"
    by (rule length_filter_disjoint) auto
  ultimately show ?case using Suc.IH by simp
qed

lemma three_way:
  "length (filter (\<lambda>f. \<exists>h<24. hr f = Some (int h)) fs) +
   length (filter (\<lambda>f. hr f = None) fs) + length (filter (\<lambda>f. outsideDay (hr f)) fs) = length fs"
proof (induction fs)
  case Nil
  show ?case by simp
next
  case (Cons f fs)
  show ?case
  proof (cases "hr f")
    case None
    then show ?thesis using Cons.IH by (simp add: outsideDay_def)
  next
    case (Some k)
    show ?thesis
    proof (cases "k < 0 \<or> 23 < k")
      case True
      then have "\<not> (\<exists>h<24. k = int h)" by auto
      then show ?thesis using Cons.IH Some True by (simp add: outsideDay_def)
    next
      case False
      then have "k = int (nat k)" "nat k < 24" by auto
      then have "\<exists>h<24. k = int h" by blast
      then show ?thesis using Cons.IH Some False by (simp add: outsideDay_def)
    qed
  qed
qed

lemma sumTotals_tallied:
  "sumTotals (map (\<lambda>h. (hourKey h, tallied hr t3 fs (int h))) [0..<24]) =
   length (filter (\<lambda>f. \<exists>h<24. hr f = Some (int h)) fs)"
  using sum_hours [of hr fs 24] by (simp add: sumTotals_def tallied_def comp_def)

text \<open>
  C2, as the spec states it: the totals of the 24 hour buckets plus the number of
  flights whose scheduled time does not parse is \<open>total_flights\<close>. It fails in app.js for
  a single flight scheduled at \<open>25:10\<close>: the hour parses to 25, the flight is in no bucket
  of the report and is not unparsable.
\<close>

theorem lost_flight_counterexample:
  "sumTotals (flight_count (buildReport ''2026/11/03'' (JStr ''domestic'') [lateFlight])) +
     countUnparsable [lateFlight] \<noteq>
   total_flights (buildReport ''2026/11/03'' (JStr ''domestic'') [lateFlight])"
  by code_simp

text \<open>
  C2, amended. The totals of the 24 hour buckets, plus the number of flights whose hour
  does not parse, plus the number of flights whose hour parses outside 0..23, is the
  number of flights of the list. In app.js that number is \<open>total_flights\<close>. In part_000
  \<open>total_flights\<close> is the \<open>totalFlightCount\<close> of the payload, whatever the list holds.
\<close>

theorem hourly_totals_cover_the_list:
  "sumTotals (flight_count (buildReport formatted ft fs)) + countUnparsable fs + countOutsideDay fs
     = total_flights (buildReport formatted ft fs) \<and>
   (\<forall>r. buildReport_api formatted ft fd totalFlights gs = Inr r \<longrightarrow>
      sumTotals (flight_count_api r) + countUnparsable_api gs + countOutsideDay_api gs = length gs \<and>
      total_flights_api r = totalFlights)"
proof (intro conjI allI impI)
  have "total_flights (buildReport formatted ft fs) = length fs"
    by (simp add: buildReport_def Let_def)
  then show "sumTotals (flight_count (buildReport formatted ft fs)) + countUnparsable fs +
      countOutsideDay fs = total_flights (buildReport formatted ft fs)"
    using three_way [of flightHour fs]
    by (simp add: flight_count_buildReport sumTotals_tallied countUnparsable_def countOutsideDay_def)
next
  fix r assume r: "buildReport_api formatted ft fd totalFlights gs = Inr r"
  show "sumTotals (flight_count_api r) + countUnparsable_api gs + countOutsideDay_api gs = length gs"
    using three_way [of flightHour_api gs]
    by (simp add: flight_count_api_tallied [OF r] sumTotals_tallied countUnparsable_api_def
        countOutsideDay_api_def)
  show "total_flights_api r = totalFlights"
    by (rule buildReport_api_InrD(5) [OF r])
qed

theorem hourly_totals_cover_the_list_witness:
  "sumTotals (flight_count (buildReport ''2026-11-03'' (JStr ''domestic'') exampleFlights)) +
     countUnparsable exampleFlights + countOutsideDay exampleFlights = 3 \<and>
   (\<exists>r. buildReport_api ''2026-11-03'' (JStr ''domestic'') (JStr ''arrival'') (JNum ''7'')
          exampleFlights_api = Inr r \<and>
        sumTotals (flight_count_api r) + countUnparsable_api exampleFlights_api +
          countOutsideDay_api exampleFlights_api = 3 \<and>
        total_flights_api r = JNum ''7'')"
proof -
  obtain r where r: "buildReport_api ''2026-11-03'' (JStr ''domestic'') (JStr ''arrival'') (JNum ''7'')
      exampleFlights_api = Inr r"
    using buildReport_api_Inr [OF exampleFlights_api_strings] by blast
  have n: "total_flights (buildReport ''2026-11-03'' (JStr ''domestic'') exampleFlights) = 3"
    by (simp add: buildReport_def Let_def exampleFlights_def)
  have l: "length exampleFlights_api = 3"
    by (simp add: exampleFlights_api_def)
  show ?thesis
    using hourly_totals_cover_the_list [of "''2026-11-03''" "JStr ''domestic''" exampleFlights
        "JStr ''arrival''" "JNum ''7''" exampleFlights_api] r n l
    by auto
qed

section \<open>Permuting the flight list\<close>

lemma length_filter_mset:
  "mset xs = mset ys \<Longrightarrow> length (filter P xs) = length (filter P ys)"
proof -
  assume "mset xs = mset ys"
  then have "mset (filter P xs) = mset (filter P ys)" by (simp only: mset_filter)
  then show ?thesis by (metis size_mset)
qed

lemma tallied_mset: "mset fs' = mset fs \<Longrightarrow> tallied hr t3 fs' k = tallied hr t3 fs k"
  by (simp add: tallied_def length_filter_mset [of fs' fs])

lemma flightStatuses_mset:
  "mset fs' = mset fs \<Longrightarrow> flightStatuses (map st fs') = flightStatuses (map st fs)"
proof -
  assume "mset fs' = mset fs"
  then have "mset (map st fs') = mset (map st fs)" by (metis mset_map)
  then have "\<And>P. length (filter P (map st fs')) = length (filter P (map st fs))"
    by (rule length_filter_mset)
  then show ?thesis by (simp only: flightStatuses_def)
qed

lemma list_all_mset:
  "mset xs = mset ys \<Longrightarrow> list_all P xs = list_all P ys"
  by (metis list_all_iff set_mset_mset)

text \<open>
  C8. When the flight list is permuted, the status counts and the 24 hour buckets of the
  report (T2, T3 and total of each) stay the same, in both servers; \<open>sample_flights\<close> is
  the first five flights of the list in its own order. In part_000 the report exists
  for a list exactly when it exists for its permutations.
\<close>

theorem permuted_list_same_counts:
  "(mset fs' = mset fs \<longrightarrow>
      flight_statuses (buildReport formatted ft fs') = flight_statuses (buildReport formatted ft fs) \<and>
      flight_count (buildReport formatted ft fs') = flight_count (buildReport formatted ft fs)) \<and>
   sample_flights (buildReport formatted ft fs) = take 5 fs \<and>
   (mset gs' = mset gs \<longrightarrow>
      map_sum id (\<lambda>r. (flight_statuses_api r, flight_count_api r))
          (buildReport_api formatted ft fd totalFlights gs') =
      map_sum id (\<lambda>r. (flight_statuses_api r, flight_count_api r))
          (buildReport_api formatted ft fd totalFlights gs)) \<and>
   (\<forall>r. buildReport_api formatted ft fd totalFlights gs = Inr r \<longrightarrow> sample_flights_api r = take 5 gs)"
proof (intro conjI impI allI)
  assume p: "mset fs' = mset fs"
  show "flight_statuses (buildReport formatted ft fs') = flight_statuses (buildReport formatted ft fs)"
    by (simp add: hourScan_buildReport(3) flightStatuses_mset [OF p])
  have "hourScan (foldl (tallyStep flightHour isT3) Map.empty fs') =
        hourScan (foldl (tallyStep flightHour isT3) Map.empty fs)"
    by (rule hourScan_tally) (simp add: tallied_mset [OF p])
  then show "flight_count (buildReport formatted ft fs') = flight_count (buildReport formatted ft fs)"
    by (simp add: hourScan_buildReport(1))
next
  show "sample_flights (buildReport formatted ft fs) = take 5 fs"
    by (rule hourScan_buildReport(4))
next
  assume p: "mset gs' = mset gs"
  have s: "hourScan (foldl (tallyStep flightHour_api isT3_flight_api) Map.empty gs') =
        hourScan (foldl (tallyStep flightHour_api isT3_flight_api) Map.empty gs)"
    by (rule hourScan_tally) (simp add: tallied_mset [OF p])
  have a: "list_all (\<lambda>g. isString (scheduledTime_api g)) gs' = list_all (\<lambda>g. isString (scheduledTime_api g)) gs"
    by (rule list_all_mset [OF p])
  show "map_sum id (\<lambda>r. (flight_statuses_api r, flight_count_api r))
          (buildReport_api formatted ft fd totalFlights gs') =
      map_sum id (\<lambda>r. (flight_statuses_api r, flight_count_api r))
          (buildReport_api formatted ft fd totalFlights gs)"
    by (simp add: buildReport_api_def forEachE_countByHour_api bindE_def Let_def a s
        flightStatuses_mset [OF p])
next
  fix r assume "buildReport_api formatted ft fd totalFlights gs = Inr r"
  then show "sample_flights_api r = take 5 gs" by (rule buildReport_api_InrD(6))
qed

theorem permuted_list_same_counts_witness:
  "mset (rev exampleFlights) = mset exampleFlights \<and>
   flight_statuses (buildReport ''2026-11-03'' (JStr ''domestic'') (rev exampleFlights)) =
     flight_statuses (buildReport ''2026-11-03'' (JStr ''domestic'') exampleFlights) \<and>
   flight_count (buildReport ''2026-11-03'' (JStr ''domestic'') (rev exampleFlights)) =
     flight_count (buildReport ''2026-11-03'' (JStr ''domestic'') exampleFlights) \<and>
   sample_flights (buildReport ''2026-11-03'' (JStr ''domestic'') exampleFlights) = exampleFlights \<and>
   mset (rev exampleFlights_api) = mset exampleFlights_api \<and>
   (\<exists>r r'. buildReport_api ''2026-11-03'' (JStr ''domestic'') (JStr ''arrival'') (JNum ''7'')
            exampleFlights_api = Inr r \<and>
          buildReport_api ''2026-11-03'' (JStr ''domestic'') (JStr ''arrival'') (JNum ''7'')
            (rev exampleFlights_api) = Inr r' \<and>
          flight_statuses_api r' = flight_statuses_api r \<and>
          flight_count_api r' = flight_count_api r \<and>
          sample_flights_api r = exampleFlights_api)"
proof -
  obtain r where r: "buildReport_api ''2026-11-03'' (JStr ''domestic'') (JStr ''arrival'') (JNum ''7'')
      exampleFlights_api = Inr r"
    using buildReport_api_Inr [OF exampleFlights_api_strings] by blast
  have "list_all (\<lambda>g. isString (scheduledTime_api g)) (rev exampleFlights_api)"
    using exampleFlights_api_strings by simp
  then obtain r' where r': "buildReport_api ''2026-11-03'' (JStr ''domestic'') (JStr ''arrival'')
      (JNum ''7'') (rev exampleFlights_api) = Inr r'"
    using buildReport_api_Inr by blast
  have t5: "take 5 exampleFlights = exampleFlights" "take 5 exampleFlights_api = exampleFlights_api"
    by (simp_all add: exampleFlights_def exampleFlights_api_def)
  show ?thesis
    using permuted_list_same_counts [of "rev exampleFlights" exampleFlights "''2026-11-03''"
        "JStr ''domestic''" "rev exampleFlights_api" exampleFlights_api "JStr ''arrival''" "JNum ''7''"]
      r r' t5
    by auto
qed

section \<open>A flight outside the day\<close>

lemma tallied_insert_outside:
  "hr f = Some h \<Longrightarrow> k \<noteq> h \<Longrightarrow> tallied hr t3 (xs @ f # ys) k = tallied hr t3 (xs @ ys) k"
  by (simp add: tallied_def)

lemma flightStatuses_insert:
  "flightStatuses (map st (xs @ f # ys)) =
     \<lparr>on_time = on_time (flightStatuses (map st (xs @ ys))) + (if st f = ''on time'' then 1 else 0),
      cancelled = cancelled (flightStatuses (map st (xs @ ys))) + (if st f = ''cancelled'' then 1 else 0),
      delayed = delayed (flightStatuses (map st (xs @ ys))) + (if st f = ''delayed'' then 1 else 0)\<rparr>"
  by (simp add: flightStatuses_def)

lemma tally_stores:
  "hr f = Some h \<Longrightarrow> f \<in> set fs \<Longrightarrow>
   \<exists>b. foldl (tallyStep hr t3) Map.empty fs h = Some b \<and> 0 < total_n b"
proof -
  assume h: "hr f = Some h" and f: "f \<in> set fs"
  have "filter (\<lambda>f. hr f = Some h) fs \<noteq> []" using h f by (auto simp: filter_empty_conv)
  then have pos: "0 < total_n (tallied hr t3 fs h)" by (simp add: tallied_def)
  then have "0 < total_n (bucketAt (foldl (tallyStep hr t3) Map.empty fs) h)"
    by (simp add: bucketAt_tally_empty)
  then show ?thesis
    by (cases "foldl (tallyStep hr t3) Map.empty fs h") (simp_all add: bucketAt_def emptyBucket_def)
qed

lemma hourScan_insert_outside:
  assumes "hr f = Some h" "h < 0 \<or> 23 < h"
  shows "hourScan (foldl (tallyStep hr t3) Map.empty (xs @ f # ys)) =
         hourScan (foldl (tallyStep hr t3) Map.empty (xs @ ys))"
proof (rule hourScan_tally)
  fix k :: nat assume "k < 24"
  then have "int k \<noteq> h" using assms(2) by auto
  then show "tallied hr t3 (xs @ f # ys) (int k) = tallied hr t3 (xs @ ys) (int k)"
    using assms(1) by (simp add: tallied_insert_outside [of hr f h])
qed

lemma outside_day_page:
  assumes "flightHour f = Some h" "h < 0 \<or> 23 < h"
  shows "\<exists>b. foldl countByHour Map.empty (xs @ f # ys) h = Some b \<and> 0 < total_n b"
    and "flight_count (buildReport formatted ft (xs @ f # ys)) = flight_count (buildReport formatted ft (xs @ ys))"
    and "peak_hours (buildReport formatted ft (xs @ f # ys)) = peak_hours (buildReport formatted ft (xs @ ys))"
    and "flight_statuses (buildReport formatted ft (xs @ f # ys)) =
       \<lparr>on_time = on_time (flight_statuses (buildReport formatted ft (xs @ ys))) + (if status f = ''on time'' then 1 else 0),
        cancelled = cancelled (flight_statuses (buildReport formatted ft (xs @ ys))) + (if status f = ''cancelled'' then 1 else 0),
        delayed = delayed (flight_statuses (buildReport formatted ft (xs @ ys))) + (if status f = ''delayed'' then 1 else 0)\<rparr>"
proof -
  show "\<exists>b. foldl countByHour Map.empty (xs @ f # ys) h = Some b \<and> 0 < total_n b"
    unfolding countByHour_tallyStep
    using assms(1) by (intro tally_stores [where hr = flightHour and f = f]) simp_all
  have s: "hourScan (foldl (tallyStep flightHour isT3) Map.empty (xs @ f # ys)) =
        hourScan (foldl (tallyStep flightHour isT3) Map.empty (xs @ ys))"
    using assms by (intro hourScan_insert_outside [where hr = flightHour and f = f and h = h])
  show "flight_count (buildReport formatted ft (xs @ f # ys)) = flight_count (buildReport formatted ft (xs @ ys))"
    by (simp only: hourScan_buildReport(1) s)
  show "peak_hours (buildReport formatted ft (xs @ f # ys)) = peak_hours (buildReport formatted ft (xs @ ys))"
    by (simp only: hourScan_buildReport(2) s)
  show "flight_statuses (buildReport formatted ft (xs @ f # ys)) =
       \<lparr>on_time = on_time (flight_statuses (buildReport formatted ft (xs @ ys))) + (if status f = ''on time'' then 1 else 0),
        cancelled = cancelled (flight_statuses (buildReport formatted ft (xs @ ys))) + (if status f = ''cancelled'' then 1 else 0),
        delayed = delayed (flight_statuses (buildReport formatted ft (xs @ ys))) + (if status f = ''delayed'' then 1 else 0)\<rparr>"
    by (simp only: hourScan_buildReport(3) flightStatuses_insert)
qed

lemma outside_day_api:
  assumes "flightHour_api g = Some k" "k < 0 \<or> 23 < k"
    and r0: "buildReport_api formatted ft fd totalFlights (us @ vs) = Inr r0"
  shows "\<exists>r m b. buildReport_api formatted ft fd totalFlights (us @ g # vs) = Inr r \<and>
       forEachE countByHour_api (us @ g # vs) Map.empty = Inr m \<and> m k = Some b \<and> 0 < total_n b \<and>
       flight_count_api r = flight_count_api r0 \<and>
       peak_hours_api r = peak_hours_api r0 \<and>
       flight_statuses_api r =
         \<lparr>on_time = on_time (flight_statuses_api r0) + (if status_api g = ''on time'' then 1 else 0),
          cancelled = cancelled (flight_statuses_api r0) + (if status_api g = ''cancelled'' then 1 else 0),
          delayed = delayed (flight_statuses_api r0) + (if status_api g = ''delayed'' then 1 else 0)\<rparr>"
proof -
  have all0: "list_all (\<lambda>g. isString (scheduledTime_api g)) (us @ vs)"
    by (rule buildReport_api_InrD(1) [OF r0])
  then have all1: "list_all (\<lambda>g. isString (scheduledTime_api g)) (us @ g # vs)"
    using flightHour_api_string [OF assms(1)] by simp
  then obtain r where r: "buildReport_api formatted ft fd totalFlights (us @ g # vs) = Inr r"
    using buildReport_api_Inr by blast
  have m: "forEachE countByHour_api (us @ g # vs) Map.empty =
      Inr (foldl (tallyStep flightHour_api isT3_flight_api) Map.empty (us @ g # vs))"
    using all1 by (simp only: forEachE_countByHour_api if_True)
  obtain b where b: "foldl (tallyStep flightHour_api isT3_flight_api) Map.empty (us @ g # vs) k = Some b"
      "0 < total_n b"
    using tally_stores [where hr = flightHour_api and f = g and h = k and fs = "us @ g # vs"
        and ?t3.0 = isT3_flight_api] assms(1) by auto
  have s: "hourScan (foldl (tallyStep flightHour_api isT3_flight_api) Map.empty (us @ g # vs)) =
        hourScan (foldl (tallyStep flightHour_api isT3_flight_api) Map.empty (us @ vs))"
    using assms(1,2) by (intro hourScan_insert_outside [where hr = flightHour_api and f = g and h = k])
  have "flight_count_api r = flight_count_api r0"
    by (simp only: buildReport_api_InrD(2) [OF r] buildReport_api_InrD(2) [OF r0] s)
  moreover have "peak_hours_api r = peak_hours_api r0"
    by (simp only: buildReport_api_InrD(3) [OF r] buildReport_api_InrD(3) [OF r0] s)
  moreover have "flight_statuses_api r =
         \<lparr>on_time = on_time (flight_statuses_api r0) + (if status_api g = ''on time'' then 1 else 0),
          cancelled = cancelled (flight_statuses_api r0) + (if status_api g = ''cancelled'' then 1 else 0),
          delayed = delayed (flight_statuses_api r0) + (if status_api g = ''delayed'' then 1 else 0)\<rparr>"
    by (simp only: buildReport_api_InrD(4) [OF r] buildReport_api_InrD(4) [OF r0] flightStatuses_insert)
  ultimately show ?thesis using r m b by blast
qed

text \<open>
  C10. A flight whose scheduled time starts with a token that \<open>parseInt\<close> reads as an
  integer outside 0..23 is counted in a bucket of \<open>flightCountByHour\<close> under that
  integer. The loop over the hours 0..23 never reads that bucket: \<open>flight_count\<close> and
  \<open>peak_hours\<close> of the report are those of the list without the flight. The status
  counts count the flight. This holds in both servers.
\<close>

theorem flight_outside_day_not_emitted:
  "(flightHour f = Some h \<and> (h < 0 \<or> 23 < h) \<longrightarrow>
      (\<exists>b. foldl countByHour Map.empty (xs @ f # ys) h = Some b \<and> 0 < total_n b) \<and>
      flight_count (buildReport formatted ft (xs @ f # ys)) =
        flight_count (buildReport formatted ft (xs @ ys)) \<and>
      peak_hours (buildReport formatted ft (xs @ f # ys)) =
        peak_hours (buildReport formatted ft (xs @ ys)) \<and>
      flight_statuses (buildReport formatted ft (xs @ f # ys)) =
        \<lparr>on_time = on_time (flight_statuses (buildReport formatted ft (xs @ ys))) +
           (if status f = ''on time'' then 1 else 0),
         cancelled = cancelled (flight_statuses (buildReport formatted ft (xs @ ys))) +
           (if status f = ''cancelled'' then 1 else 0),
         delayed = delayed (flight_statuses (buildReport formatted ft (xs @ ys))) +
           (if status f = ''delayed'' then 1 else 0)\<rparr>) \<and>
   (flightHour_api g = Some k \<and> (k < 0 \<or> 23 < k) \<and>
    buildReport_api formatted ft fd totalFlights (us @ vs) = Inr r0 \<longrightarrow>
      (\<exists>r m b. buildReport_api formatted ft fd totalFlights (us @ g # vs) = Inr r \<and>
         forEachE countByHour_api (us @ g # vs) Map.empty = Inr m \<and> m k = Some b \<and> 0 < total_n b \<and>
         flight_count_api r = flight_count_api r0 \<and>
         peak_hours_api r = peak_hours_api r0 \<and>
         flight_statuses_api r =
           \<lparr>on_time = on_time (flight_statuses_api r0) + (if status_api g = ''on time'' then 1 else 0),
            cancelled = cancelled (flight_statuses_api r0) + (if status_api g = ''cancelled'' then 1 else 0),
            delayed = delayed (flight_statuses_api r0) + (if status_api g = ''delayed'' then 1 else 0)\<rparr>))"
proof (intro conjI impI)
  assume a: "flightHour f = Some h \<and> (h < 0 \<or> 23 < h)"
  then have h: "flightHour f = Some h" and o: "h < 0 \<or> 23 < h" by simp_all
  show "\<exists>b. foldl countByHour Map.empty (xs @ f # ys) h = Some b \<and> 0 < total_n b"
    by (rule outside_day_page(1) [OF h o])
  show "flight_count (buildReport formatted ft (xs @ f # ys)) =
        flight_count (buildReport formatted ft (xs @ ys))"
    by (rule outside_day_page(2) [OF h o])
  show "peak_hours (buildReport formatted ft (xs @ f # ys)) =
        peak_hours (buildReport formatted ft (xs @ ys))"
    by (rule outside_day_page(3) [OF h o])
  show "flight_statuses (buildReport formatted ft (xs @ f # ys)) =
        \<lparr>on_time = on_time (flight_statuses (buildReport formatted ft (xs @ ys))) +
           (if status f = ''on time'' then 1 else 0),
         cancelled = cancelled (flight_statuses (buildReport formatted ft (xs @ ys))) +
           (if status f = ''cancelled'' then 1 else 0),
         delayed = delayed (flight_statuses (buildReport formatted ft (xs @ ys))) +
           (if status f = ''delayed'' then 1 else 0)\<rparr>"
    by (rule outside_day_page(4) [OF h o])
next
  assume a: "flightHour_api g = Some k \<and> (k < 0 \<or> 23 < k) \<and>
    buildReport_api formatted ft fd totalFlights (us @ vs) = Inr r0"
  then have h: "flightHour_api g = Some k" and o: "k < 0 \<or> 23 < k"
    and r0: "buildReport_api formatted ft fd totalFlights (us @ vs) = Inr r0" by simp_all
  show "\<exists>r m b. buildReport_api formatted ft fd totalFlights (us @ g # vs) = Inr r \<and>
         forEachE countByHour_api (us @ g # vs) Map.empty = Inr m \<and> m k = Some b \<and> 0 < total_n b \<and>
         flight_count_api r = flight_count_api r0 \<and>
         peak_hours_api r = peak_hours_api r0 \<and>
         flight_statuses_api r =
           \<lparr>on_time = on_time (flight_statuses_api r0) + (if status_api g = ''on time'' then 1 else 0),
            cancelled = cancelled (flight_statuses_api r0) + (if status_api g = ''cancelled'' then 1 else 0),
            delayed = delayed (flight_statuses_api r0) + (if status_api g = ''delayed'' then 1 else 0)\<rparr>"
    by (rule outside_day_api [OF h o r0])
qed

theorem flight_outside_day_not_emitted_witness:
  "flightHour lateFlight = Some 25 \<and>
   (\<exists>b. foldl countByHour Map.empty [morningFlight, lateFlight, untimedFlight] 25 = Some b \<and>
        0 < total_n b) \<and>
   flight_count (buildReport ''2026-11-03'' (JStr ''domestic'') [morningFlight, lateFlight, untimedFlight]) =
     flight_count (buildReport ''2026-11-03'' (JStr ''domestic'') [morningFlight, untimedFlight]) \<and>
   peak_hours (buildReport ''2026-11-03'' (JStr ''domestic'') [morningFlight, lateFlight, untimedFlight]) =
     peak_hours (buildReport ''2026-11-03'' (JStr ''domestic'') [morningFlight, untimedFlight]) \<and>
   delayed (flight_statuses
       (buildReport ''2026-11-03'' (JStr ''domestic'') [morningFlight, lateFlight, untimedFlight])) =
     delayed (flight_statuses
       (buildReport ''2026-11-03'' (JStr ''domestic'') [morningFlight, untimedFlight])) + 1 \<and>
   flightHour_api lateFlight_api = Some 25 \<and>
   (\<exists>r0 r. buildReport_api ''2026-11-03'' (JStr ''domestic'') (JStr ''arrival'') (JNum ''7'')
             [morningFlight_api, untimedFlight_api] = Inr r0 \<and>
           buildReport_api ''2026-11-03'' (JStr ''domestic'') (JStr ''arrival'') (JNum ''7'')
             [morningFlight_api, lateFlight_api, untimedFlight_api] = Inr r \<and>
           flight_count_api r = flight_count_api r0 \<and>
           peak_hours_api r = peak_hours_api r0 \<and>
           delayed (flight_statuses_api r) = delayed (flight_statuses_api r0) + 1)"
proof -
  have "list_all (\<lambda>g. isString (scheduledTime_api g)) [morningFlight_api, untimedFlight_api]"
    using exampleFlights_api_strings by (simp add: exampleFlights_api_def)
  then obtain r0 where r0: "buildReport_api ''2026-11-03'' (JStr ''domestic'') (JStr ''arrival'')
      (JNum ''7'') ([morningFlight_api] @ [untimedFlight_api]) = Inr r0"
    using buildReport_api_Inr by fastforce
  have d: "status lateFlight = ''delayed''" "status_api lateFlight_api = ''delayed''"
    by (simp_all add: lateFlight_def lateFlight_api_def flightOf_api_def)
  show ?thesis
    using flight_outside_day_not_emitted [of lateFlight 25 "[morningFlight]" "[untimedFlight]"
        "''2026-11-03''" "JStr ''domestic''" lateFlight_api 25 "JStr ''arrival''" "JNum ''7''"
        "[morningFlight_api]" "[untimedFlight_api]" r0]
      lateFlight_hour lateFlight_api_hour r0 d
    by auto
qed

section \<open>Substrings, lower case and trimming\<close>

lemma includes_str_iff: "includes_str s t \<longleftrightarrow> (\<exists>p q. s = p @ t @ q)"
proof (induction s)
  case Nil
  show ?case by auto
next
  case (Cons c cs)
  show ?case
  proof
    assume "includes_str (c # cs) t"
    then consider "prefix t (c # cs)" | "includes_str cs t" by auto
    then show "\<exists>p q. c # cs = p @ t @ q"
    proof cases
      case 1
      then obtain q where "c # cs = t @ q" by (auto simp: prefix_def)
      then have "c # cs = [] @ t @ q" by simp
      then show ?thesis by blast
    next
      case 2
      then obtain p q where "cs = p @ t @ q" using Cons.IH by blast
      then have "c # cs = (c # p) @ t @ q" by simp
      then show ?thesis by blast
    qed
  next
    assume "\<exists>p q. c # cs = p @ t @ q"
    then obtain p q where e: "c # cs = p @ t @ q" by blast
    show "includes_str (c # cs) t"
    proof (cases p)
      case Nil
      then have "prefix t (c # cs)" using e by (simp add: prefix_def)
      then show ?thesis by simp
    next
      case (Cons d p')
      then have "cs = p' @ t @ q" using e by simp
      then have "includes_str cs t" using Cons.IH by blast
      then show ?thesis by simp
    qed
  qed
qed

lemma includes_lower_iff:
  "includes_str (toLowerCase a) t \<longleftrightarrow> (\<exists>p u q. a = p @ u @ q \<and> toLowerCase u = t)"
proof
  assume "includes_str (toLowerCase a) t"
  then obtain p' q' where "map lowerChar a = p' @ (t @ q')"
    by (auto simp: includes_str_iff toLowerCase_def)
  then have "\<exists>p r. a = p @ r \<and> p' = map lowerChar p \<and> t @ q' = map lowerChar r"
    by (simp only: map_eq_append_conv)
  then obtain p r where a: "a = p @ r" and r: "t @ q' = map lowerChar r" by blast
  from r have "\<exists>u q. r = u @ q \<and> t = map lowerChar u \<and> q' = map lowerChar q"
    by (simp only: append_eq_map_conv)
  then obtain u q where "r = u @ q" "map lowerChar u = t" by auto
  then show "\<exists>p u q. a = p @ u @ q \<and> toLowerCase u = t"
    using a by (auto simp: toLowerCase_def)
next
  assume "\<exists>p u q. a = p @ u @ q \<and> toLowerCase u = t"
  then obtain p u q where "a = p @ u @ q" "toLowerCase u = t" by blast
  then have "toLowerCase a = toLowerCase p @ t @ toLowerCase q"
    by (simp add: toLowerCase_def)
  then show "includes_str (toLowerCase a) t"
    unfolding includes_str_iff by blast
qed

lemma includes_nonempty: "includes_str s t \<Longrightarrow> t \<noteq> [] \<Longrightarrow> s \<noteq> []"
  by (cases s) auto

lemma lowerChar_whiteSpace: "isWhiteSpace c \<Longrightarrow> lowerChar c = c"
  by (auto simp: isWhiteSpace_def lowerChar_def)

lemma dropWhile_keeps:
  assumes "u \<noteq> []" "\<not> P (hd u)"
  shows "\<exists>p'. dropWhile P (p @ u @ q) = p' @ u @ q"
proof (cases "\<forall>x\<in>set p. P x")
  case True
  then have "dropWhile P (p @ u @ q) = dropWhile P (u @ q)" by (simp add: dropWhile_append)
  also have "\<dots> = u @ q" using assms by (cases u) simp_all
  finally have "dropWhile P (p @ u @ q) = [] @ u @ q" by simp
  then show ?thesis by blast
next
  case False
  then have "dropWhile P (p @ u @ q) = dropWhile P p @ u @ q" by (auto simp: dropWhile_append)
  then show ?thesis by blast
qed

lemma trim_keeps:
  assumes "u \<noteq> []" "\<not> isWhiteSpace (hd u)" "\<not> isWhiteSpace (last u)"
  shows "\<exists>p' q'. trim (p @ u @ q) = p' @ u @ q'"
proof -
  obtain p' where 1: "dropWhile isWhiteSpace (p @ u @ q) = p' @ u @ q"
    using dropWhile_keeps [where P = isWhiteSpace and u = u and p = p and q = q] assms(1,2) by blast
  have "rev u \<noteq> []" "\<not> isWhiteSpace (hd (rev u))" using assms by (simp_all add: hd_rev)
  then obtain q' where 2: "dropWhile isWhiteSpace (rev q @ rev u @ rev p') = q' @ rev u @ rev p'"
    using dropWhile_keeps [where P = isWhiteSpace and u = "rev u" and p = "rev q" and q = "rev p'"]
    by blast
  have "trim (p @ u @ q) = p' @ u @ rev q'"
    by (simp add: trim_def 1 2)
  then show ?thesis by blast
qed

lemma trim_sublist: "\<exists>a b. s = a @ trim s @ b"
proof -
  have 1: "s = takeWhile isWhiteSpace s @ dropWhile isWhiteSpace s" by simp
  define d where "d = dropWhile isWhiteSpace s"
  have "d = rev (dropWhile isWhiteSpace (rev d)) @ rev (takeWhile isWhiteSpace (rev d))"
    by (metis rev_append rev_rev_ident takeWhile_dropWhile_id)
  then have "d = trim s @ rev (takeWhile isWhiteSpace (rev d))" by (simp add: trim_def d_def)
  then have "s = takeWhile isWhiteSpace s @ trim s @ rev (takeWhile isWhiteSpace (rev d))"
    using 1 d_def by metis
  then show ?thesis by blast
qed

lemma qantas_ends:
  assumes "toLowerCase u = ''qantas''"
  shows "u \<noteq> []" "\<not> isWhiteSpace (hd u)" "\<not> isWhiteSpace (last u)"
proof -
  show u: "u \<noteq> []" using assms by (auto simp: toLowerCase_def)
  have "lowerChar (hd u) = CHR ''q''" using assms u by (cases u) (auto simp: toLowerCase_def)
  moreover have "\<not> isWhiteSpace (CHR ''q'')" by (simp add: isWhiteSpace_def)
  ultimately show "\<not> isWhiteSpace (hd u)" using lowerChar_whiteSpace by metis
  have "map lowerChar u = ''qantas''" using assms by (simp add: toLowerCase_def)
  then have "last (map lowerChar u) = CHR ''s''" by simp
  then have "lowerChar (last u) = CHR ''s''" using u by (simp add: last_map)
  moreover have "\<not> isWhiteSpace (CHR ''s'')" by (simp add: isWhiteSpace_def)
  ultimately show "\<not> isWhiteSpace (last u)" using lowerChar_whiteSpace by metis
qed

lemma includes_trim_qantas:
  "includes_str (toLowerCase (trim a)) ''qantas'' \<longleftrightarrow>
   (\<exists>p u q. a = p @ u @ q \<and> toLowerCase u = ''qantas'')"
proof
  assume "includes_str (toLowerCase (trim a)) ''qantas''"
  then obtain p u q where t: "trim a = p @ u @ q" and u: "toLowerCase u = ''qantas''"
    unfolding includes_lower_iff by blast
  obtain x y where "a = x @ trim a @ y" using trim_sublist by blast
  then have "a = (x @ p) @ u @ (q @ y)" using t by simp
  then show "\<exists>p u q. a = p @ u @ q \<and> toLowerCase u = ''qantas''" using u by blast
next
  assume "\<exists>p u q. a = p @ u @ q \<and> toLowerCase u = ''qantas''"
  then obtain p u q where a: "a = p @ u @ q" and u: "toLowerCase u = ''qantas''" by blast
  obtain p' q' where "trim (p @ u @ q) = p' @ u @ q'"
    using trim_keeps [OF qantas_ends [OF u]] by blast
  then show "includes_str (toLowerCase (trim a)) ''qantas''"
    unfolding includes_lower_iff using a u by blast
qed

section \<open>The status of a raw record and of a card\<close>

lemma getProp_field: "getProp v n = Inr x \<Longrightarrow> getProp v m = Inr (field v m)"
  by (cases v) (simp_all add: field_def split: option.splits)

lemma field_getProp: "getProp v n = Inr x \<Longrightarrow> field v n = x"
  by (simp add: field_def)

lemma classify_api_falsy:
  "getProp flight ''status'' = Inr st \<Longrightarrow> \<not> truthy st \<Longrightarrow> classify_api flight = Inr ''on time''"
  by (simp add: classify_api_def bindE_def)

lemma classify_api_text:
  assumes "getProp flight ''status'' = Inr (JStr s)" "s \<noteq> []"
  shows "classify_api flight =
     Inr (if includes_str (toLowerCase s) ''cancel'' then ''cancelled''
          else if includes_str (toLowerCase s) ''delay'' \<or>
                  (truthy (field flight ''estimatedTime'') \<and>
                   \<not> strictEq (field flight ''estimatedTime'') (field flight ''scheduledTime'') \<and>
                   \<not> strictEq (field flight ''estimatedTime'') (JStr ''-''))
          then ''delayed'' else ''on time'')"
  using assms getProp_field [OF assms(1), of "''estimatedTime''"]
    getProp_field [OF assms(1), of "''scheduledTime''"]
  by (simp add: classify_api_def bindE_def)

lemma classify_api_other:
  "getProp flight ''status'' = Inr st \<Longrightarrow> truthy st \<Longrightarrow> \<not> isString st \<Longrightarrow>
   classify_api flight = Inl TypeError"
  by (cases st) (simp_all add: classify_api_def bindE_def isString_def)

lemma classify_api_nullish:
  "getProp flight ''status'' = Inl e \<Longrightarrow> classify_api flight = Inl e"
  by (simp add: classify_api_def bindE_def)

lemma classify_api_cancelled:
  assumes "getProp flight ''status'' = Inr (JStr s)" "includes_str (toLowerCase s) ''cancel''"
  shows "classify_api flight = Inr ''cancelled''"
proof -
  have "toLowerCase s \<noteq> []" using includes_nonempty [OF assms(2)] by simp
  then have "s \<noteq> []" by (auto simp: toLowerCase_def)
  then show ?thesis using assms by (simp add: classify_api_text)
qed

lemma classify_api_cancelledD:
  assumes "classify_api flight = Inr ''cancelled''"
  shows "\<exists>s. getProp flight ''status'' = Inr (JStr s) \<and> includes_str (toLowerCase s) ''cancel''"
proof (cases "getProp flight ''status''")
  case (Inl e)
  then show ?thesis using assms by (simp add: classify_api_nullish)
next
  case (Inr st)
  show ?thesis
  proof (cases "truthy st")
    case False
    then show ?thesis using assms Inr by (simp add: classify_api_falsy)
  next
    case True
    show ?thesis
    proof (cases "isString st")
      case False
      then show ?thesis using assms Inr True by (simp add: classify_api_other)
    next
      case s: True
      then obtain s where st: "st = JStr s" by (cases st) (simp_all add: isString_def)
      then have "s \<noteq> []" using True by simp
      then show ?thesis using assms Inr st by (simp add: classify_api_text split: if_splits)
    qed
  qed
qed

lemma classify_cancelled_iff:
  "classify c = ''cancelled'' \<longleftrightarrow>
     (\<exists>el. statusElement c = Some el \<and>
        (includes_str (toLowerCase (trim (textContent el))) ''cancelled'' \<or>
         List.member (classList el) ''red''))"
  by (cases "statusElement c") (auto simp: classify_def Let_def)

lemma classify_values:
  "classify c = ''on time'' \<or> classify c = ''delayed'' \<or> classify c = ''cancelled''"
  by (cases "statusElement c") (auto simp: classify_def Let_def)

lemma classify_no_element: "statusElement c = None \<Longrightarrow> classify c = ''on time''"
  by (simp add: classify_def)

text \<open>
  C3, as the spec states it: a record that does not match the cancelled rule is delayed
  when its estimated time exists, is not the placeholder and differs from the scheduled
  time, also with no status text. In part_000 the record without a status is on time:
  the whole classification is inside \<open>if (flight.status)\<close>.
\<close>

theorem status_needed_counterexample:
  "getProp recordWithoutStatus ''status'' = Inr JUndefined \<and>
   getProp recordWithoutStatus ''statusColor'' = Inr JUndefined \<and>
   truthy (field recordWithoutStatus ''estimatedTime'') \<and>
   \<not> strictEq (field recordWithoutStatus ''estimatedTime'') (field recordWithoutStatus ''scheduledTime'') \<and>
   \<not> strictEq (field recordWithoutStatus ''estimatedTime'') (JStr ''-'') \<and>
   classify_api recordWithoutStatus = Inr ''on time'' \<and>
   classify_api recordWithoutStatus \<noteq> Inr ''delayed''"
  by code_simp

text \<open>
  C3, amended. Take a record of part_000 that carries no \<open>statusColor\<close>. When its
  status is a non-empty string without \<open>cancel\<close> (in lower case), it is delayed when the
  status contains \<open>delay\<close>, or when the estimated time is present, is not \<open>-\<close> and differs
  from the scheduled time. When its status is missing or empty, it is on time, whatever
  its estimated time. Nothing is said of a record with a \<open>statusColor\<close>.
\<close>

theorem delayed_needs_status_text:
  "(\<not> truthy (field flight ''statusColor'') \<and>
    getProp flight ''status'' = Inr (JStr s) \<and> s \<noteq> [] \<and>
    \<not> includes_str (toLowerCase s) ''cancel'' \<and>
    (includes_str (toLowerCase s) ''delay'' \<or>
     (truthy (field flight ''estimatedTime'') \<and>
      \<not> strictEq (field flight ''estimatedTime'') (field flight ''scheduledTime'') \<and>
      \<not> strictEq (field flight ''estimatedTime'') (JStr ''-'')))
    \<longrightarrow> classify_api flight = Inr ''delayed'') \<and>
   (\<not> truthy (field flight ''statusColor'') \<and>
    getProp flight ''status'' = Inr st \<and> \<not> truthy st \<longrightarrow> classify_api flight = Inr ''on time'')"
  by (auto simp: classify_api_text classify_api_falsy)

theorem delayed_needs_status_text_witness:
  "\<not> truthy (field recordLateEstimate ''statusColor'') \<and>
   getProp recordLateEstimate ''status'' = Inr (JStr ''On Time'') \<and>
   \<not> includes_str (toLowerCase ''On Time'') ''cancel'' \<and>
   \<not> includes_str (toLowerCase ''On Time'') ''delay'' \<and>
   truthy (field recordLateEstimate ''estimatedTime'') \<and>
   \<not> strictEq (field recordLateEstimate ''estimatedTime'') (field recordLateEstimate ''scheduledTime'') \<and>
   \<not> strictEq (field recordLateEstimate ''estimatedTime'') (JStr ''-'') \<and>
   classify_api recordLateEstimate = Inr ''delayed'' \<and>
   \<not> truthy (field (rawOf ''09:15'' ''Jetstar'' ''Delayed'') ''statusColor'') \<and>
   getProp (rawOf ''09:15'' ''Jetstar'' ''Delayed'') ''status'' = Inr (JStr ''Delayed'') \<and>
   includes_str (toLowerCase ''Delayed'') ''delay'' \<and>
   classify_api (rawOf ''09:15'' ''Jetstar'' ''Delayed'') = Inr ''delayed'' \<and>
   \<not> truthy (field recordWithoutStatus ''statusColor'') \<and>
   getProp recordWithoutStatus ''status'' = Inr JUndefined \<and>
   classify_api recordWithoutStatus = Inr ''on time''"
proof -
  have a: "getProp recordLateEstimate ''status'' = Inr (JStr ''On Time'')" by code_simp
  have b: "\<not> includes_str (toLowerCase ''On Time'') ''cancel''" by code_simp
  have c: "\<not> includes_str (toLowerCase ''On Time'') ''delay''" by code_simp
  have d: "truthy (field recordLateEstimate ''estimatedTime'') \<and>
      \<not> strictEq (field recordLateEstimate ''estimatedTime'') (field recordLateEstimate ''scheduledTime'') \<and>
      \<not> strictEq (field recordLateEstimate ''estimatedTime'') (JStr ''-'')" by code_simp
  have e: "getProp recordWithoutStatus ''status'' = Inr JUndefined" by code_simp
  have f: "\<not> truthy (field recordLateEstimate ''statusColor'')" by code_simp
  have g: "\<not> truthy (field recordWithoutStatus ''statusColor'')" by code_simp
  have h: "\<not> truthy (field (rawOf ''09:15'' ''Jetstar'' ''Delayed'') ''statusColor'')" by code_simp
  have i: "getProp (rawOf ''09:15'' ''Jetstar'' ''Delayed'') ''status'' = Inr (JStr ''Delayed'')"
    by code_simp
  have j: "includes_str (toLowerCase ''Delayed'') ''delay''" by code_simp
  have k: "\<not> includes_str (toLowerCase ''Delayed'') ''cancel''" by code_simp
  show ?thesis
    using delayed_needs_status_text [of recordLateEstimate "''On Time''" JUndefined]
      delayed_needs_status_text [of "rawOf ''09:15'' ''Jetstar'' ''Delayed''" "''Delayed''" JUndefined]
      delayed_needs_status_text [of recordWithoutStatus "[]" JUndefined] a b c d e f g h i j k
    by simp
qed

text \<open>
  C5, as the spec states it: the status is cancelled exactly when the status text in
  lower case contains \<open>cancel\<close> or the status element has the class \<open>red\<close>, in both
  servers. app.js looks for \<open>cancelled\<close>: the status text \<open>Cancel\<close> is on time there.
\<close>

theorem cancel_text_counterexample:
  "statusElement cancelCard = Some \<lparr>textContent = ''Cancel'', classList = []\<rparr> \<and>
   includes_str (toLowerCase ''Cancel'') ''cancel'' \<and>
   classify cancelCard = ''on time'' \<and>
   classify cancelCard \<noteq> ''cancelled''"
  by code_simp

text \<open>
  C5, amended. In app.js a card is cancelled exactly when it has a status element whose
  trimmed text in lower case contains \<open>cancelled\<close> or whose class list has \<open>red\<close>,
  whatever marks a delay. In part_000 a record whose status is a string containing
  \<open>cancel\<close> in lower case is cancelled, also when it contains \<open>delay\<close>; a record without a
  \<open>statusColor\<close> is cancelled only then.
\<close>

theorem cancelled_rule:
  "(classify c = ''cancelled'' \<longleftrightarrow>
      (\<exists>el. statusElement c = Some el \<and>
         (includes_str (toLowerCase (trim (textContent el))) ''cancelled'' \<or>
          List.member (classList el) ''red''))) \<and>
   (getProp flight ''status'' = Inr (JStr s) \<and> includes_str (toLowerCase s) ''cancel'' \<longrightarrow>
      classify_api flight = Inr ''cancelled'') \<and>
   (classify_api flight = Inr ''cancelled'' \<and> \<not> truthy (field flight ''statusColor'') \<longrightarrow>
      (\<exists>t. getProp flight ''status'' = Inr (JStr t) \<and> includes_str (toLowerCase t) ''cancel''))"
  using classify_cancelled_iff [of c] classify_api_cancelled [of flight s]
    classify_api_cancelledD [of flight]
  by blast

theorem cancelled_rule_witness:
  "statusElement cancelledCard = Some \<lparr>textContent = ''Cancelled'', classList = []\<rparr> \<and>
   includes_str (toLowerCase (trim ''Cancelled'')) ''cancelled'' \<and>
   classify cancelledCard = ''cancelled'' \<and>
   getProp recordCancelled ''status'' = Inr (JStr ''Cancelled - was delayed'') \<and>
   includes_str (toLowerCase ''Cancelled - was delayed'') ''cancel'' \<and>
   includes_str (toLowerCase ''Cancelled - was delayed'') ''delay'' \<and>
   \<not> truthy (field recordCancelled ''statusColor'') \<and>
   classify_api recordCancelled = Inr ''cancelled''"
proof -
  have a: "statusElement cancelledCard = Some \<lparr>textContent = ''Cancelled'', classList = []\<rparr>"
    by code_simp
  have b: "includes_str (toLowerCase (trim ''Cancelled'')) ''cancelled''" by code_simp
  have c: "getProp recordCancelled ''status'' = Inr (JStr ''Cancelled - was delayed'')" by code_simp
  have d: "includes_str (toLowerCase ''Cancelled - was delayed'') ''cancel''" by code_simp
  have e: "includes_str (toLowerCase ''Cancelled - was delayed'') ''delay''" by code_simp
  have f: "\<not> truthy (field recordCancelled ''statusColor'')" by code_simp
  show ?thesis
    using cancelled_rule [of cancelledCard recordCancelled "''Cancelled - was delayed''"] a b c d e f
    by simp
qed

text \<open>
  C7, as the spec states it: the classification returns one of the three values for
  every record and never throws. In part_000 a status that is truthy and not a string
  (here the number 404) has no \<open>toLowerCase\<close>, and the call throws.
\<close>

theorem numeric_status_counterexample:
  "getProp recordNumericStatus ''status'' = Inr (JNum ''404'') \<and>
   classify_api recordNumericStatus = Inl TypeError"
  by code_simp

text \<open>
  C7, amended. The classification of app.js returns one of \<open>on time\<close>, \<open>delayed\<close>,
  \<open>cancelled\<close> for every card, and \<open>on time\<close> for a card without a status element. The
  classification of part_000 returns one of the three for every record whose status is
  missing, empty or a string, and \<open>on time\<close> when it is missing or empty. Both are
  functions of the card or record alone.
\<close>

theorem classification_total:
  "(classify c = ''on time'' \<or> classify c = ''delayed'' \<or> classify c = ''cancelled'') \<and>
   (statusElement c = None \<longrightarrow> classify c = ''on time'') \<and>
   (getProp flight ''status'' = Inr st \<and> (\<not> truthy st \<or> isString st) \<longrightarrow>
      (classify_api flight = Inr ''on time'' \<or> classify_api flight = Inr ''delayed'' \<or>
       classify_api flight = Inr ''cancelled'') \<and>
      (\<not> truthy st \<longrightarrow> classify_api flight = Inr ''on time''))"
proof (intro conjI impI)
  show "classify c = ''on time'' \<or> classify c = ''delayed'' \<or> classify c = ''cancelled''"
    by (rule classify_values)
  show "statusElement c = None \<Longrightarrow> classify c = ''on time''"
    by (rule classify_no_element)
next
  assume a: "getProp flight ''status'' = Inr st \<and> (\<not> truthy st \<or> isString st)"
  show "classify_api flight = Inr ''on time'' \<or> classify_api flight = Inr ''delayed'' \<or>
       classify_api flight = Inr ''cancelled''"
  proof (cases "truthy st")
    case False
    then show ?thesis using a by (simp add: classify_api_falsy)
  next
    case True
    then obtain s where "st = JStr s" "s \<noteq> []" using a by (cases st) (simp_all add: isString_def)
    then show ?thesis using a by (simp add: classify_api_text)
  qed
next
  assume "getProp flight ''status'' = Inr st \<and> (\<not> truthy st \<or> isString st)" "\<not> truthy st"
  then show "classify_api flight = Inr ''on time''" by (simp add: classify_api_falsy)
qed

theorem classification_total_witness:
  "statusElement bareCard = None \<and>
   classify bareCard = ''on time'' \<and>
   getProp recordWithoutStatus ''status'' = Inr JUndefined \<and>
   classify_api recordWithoutStatus = Inr ''on time'' \<and>
   getProp recordLateEstimate ''status'' = Inr (JStr ''On Time'') \<and>
   isString (JStr ''On Time'') \<and>
   classify_api recordLateEstimate = Inr ''delayed''"
proof -
  have a: "statusElement bareCard = None" by code_simp
  have b: "getProp recordWithoutStatus ''status'' = Inr JUndefined" by code_simp
  have c: "getProp recordLateEstimate ''status'' = Inr (JStr ''On Time'')" by code_simp
  have d: "isString (JStr ''On Time'')" by (simp add: isString_def)
  have e: "classify_api recordLateEstimate = Inr ''delayed''" by code_simp
  show ?thesis
    using classification_total [of bareCard recordWithoutStatus JUndefined]
      classification_total [of bareCard recordLateEstimate "JStr ''On Time''"] a b c d e
    by simp
qed

section \<open>The terminal\<close>

lemma isT3_api_text: "isT3_api (JStr a) = Inr (includes_str (toLowerCase a) ''qantas'')"
  by (cases a) (simp_all add: isT3_api_def bindE_def toLowerCase_def)

lemma isT3_api_falsy: "\<not> truthy v \<Longrightarrow> isT3_api v = Inr False"
  by (simp add: isT3_api_def)

lemma processFlight_api_terminal:
  assumes "processFlight_api flight = Inr g"
  shows "\<exists>b. isT3_api (field flight ''airline'') = Inr b \<and> terminal_api g = (if b then ''T3'' else ''T2'')"
proof (cases "classify_api flight")
  case (Inl e)
  then show ?thesis using assms by (simp add: processFlight_api_def bindE_def)
next
  case st: (Inr st)
  show ?thesis
  proof (cases "isT3_api (field flight ''airline'')")
    case (Inl e)
    then show ?thesis using assms st by (simp add: processFlight_api_def bindE_def)
  next
    case (Inr b)
    then show ?thesis using assms st by (auto simp add: processFlight_api_def bindE_def)
  qed
qed

lemma terminal_api_text:
  assumes "processFlight_api flight = Inr g" "getProp flight ''airline'' = Inr (JStr a)"
  shows "terminal_api g =
     (if (\<exists>p u q. a = p @ u @ q \<and> toLowerCase u = ''qantas'') then ''T3'' else ''T2'')"
  using processFlight_api_terminal [OF assms(1)] field_getProp [OF assms(2)]
  by (simp add: isT3_api_text includes_lower_iff)

lemma terminal_api_missing:
  assumes "processFlight_api flight = Inr g" "\<not> truthy (field flight ''airline'')"
  shows "terminal_api g = ''T2''"
  using processFlight_api_terminal [OF assms(1)] assms(2) by (auto simp add: isT3_api_falsy)

lemma processCard_airline:
  "processCard c = Inr f \<Longrightarrow> airline f = toLowerCase (trimmedText (airlineElement c))"
  by (auto simp: processCard_def)

lemma isT3_text:
  assumes "processCard c = Inr f" "airlineElement c = Some a"
  shows "isT3 f \<longleftrightarrow> (\<exists>p u q. a = p @ u @ q \<and> toLowerCase u = ''qantas'')"
  using processCard_airline [OF assms(1)] assms(2)
  by (simp add: isT3_def trimmedText_def includes_trim_qantas)

lemma isT3_missing:
  assumes "processCard c = Inr f" "airlineElement c = None"
  shows "\<not> isT3 f"
  using processCard_airline [OF assms(1)] assms(2)
  by (simp add: isT3_def trimmedText_def toLowerCase_def)

lemma countByHour_isT3: "flightHour f = Some h \<Longrightarrow> countByHour m f = countFlight (isT3 f) h m"
  by (simp add: countByHour_tallyStep tallyStep_def)

lemma terminal_examples:
  "map_sum id terminal_api (processFlight_api (rawOf ''09:15'' ''Qantas Airways'' ''On Time'')) = Inr ''T3''"
  "map_sum id terminal_api (processFlight_api (rawOf ''09:15'' ''QANTAS'' ''On Time'')) = Inr ''T3''"
  "map_sum id terminal_api (processFlight_api (rawOf ''09:15'' ''Jetstar'' ''On Time'')) = Inr ''T2''"
  "map_sum id isT3 (processCard (cardOf ''09:15'' ''Qantas Airways'' ''On Time'')) = Inr True"
  "map_sum id isT3 (processCard (cardOf ''09:15'' ''QANTAS'' ''On Time'')) = Inr True"
  "map_sum id isT3 (processCard (cardOf ''09:15'' ''Jetstar'' ''On Time'')) = Inr False"
  by code_simp+

lemma countFlight_at:
  "countFlight q h m h =
     Some (if q then \<lparr>T2 = T2 (bucketAt m h), T3 = T3 (bucketAt m h) + 1,
                       total_n = total_n (bucketAt m h) + 1\<rparr>
           else \<lparr>T2 = T2 (bucketAt m h) + 1, T3 = T3 (bucketAt m h),
                   total_n = total_n (bucketAt m h) + 1\<rparr>)"
  by (simp add: countFlight_def bucketAt_def Let_def emptyBucket_def split: option.splits)

lemma countFlight_other: "k \<noteq> h \<Longrightarrow> countFlight q h m k = m k"
  by (simp add: countFlight_def Let_def)

lemma countByHour_api_hour:
  "flightHour_api g = Some h \<Longrightarrow>
   countByHour_api g m = Inr (countFlight (terminal_api g = ''T3'') h m)"
  by (cases "scheduledTime_api g") (simp_all add: flightHour_api_def countByHour_api_def)

lemma counter_examples:
  "map_sum id (\<lambda>f. countByHour Map.empty f 9)
       (processCard (cardOf ''09:15'' ''Qantas Airways'' ''On Time'')) =
     Inr (Some \<lparr>T2 = 0, T3 = 1, total_n = 1\<rparr>)"
  "map_sum id (\<lambda>f. countByHour Map.empty f 9)
       (processCard (cardOf ''09:15'' ''QANTAS'' ''On Time'')) =
     Inr (Some \<lparr>T2 = 0, T3 = 1, total_n = 1\<rparr>)"
  "map_sum id (\<lambda>f. countByHour Map.empty f 9)
       (processCard (cardOf ''09:15'' ''Jetstar'' ''On Time'')) =
     Inr (Some \<lparr>T2 = 1, T3 = 0, total_n = 1\<rparr>)"
  by code_simp+

text \<open>
  C6. The terminal is T3 exactly when the airline text has a part that is \<open>qantas\<close> in
  lower case, else T2. part_000 stores the terminal in the flight and counts the flight
  by it. app.js has the terminal only when it counts the flight: the flight raises the
  T3 counter and the total of its hour by one when the airline text has such a part,
  else the T2 counter and the total, and leaves the other hours as they are (the
  trimming of the text does not change this). A missing airline gives T2.
  \<open>Qantas Airways\<close> and \<open>QANTAS\<close> give T3, \<open>Jetstar\<close> gives T2, in both servers.
\<close>

theorem qantas_terminal:
  "(processFlight_api flight = Inr g \<and> getProp flight ''airline'' = Inr (JStr a) \<longrightarrow>
      terminal_api g =
        (if (\<exists>p u q. a = p @ u @ q \<and> toLowerCase u = ''qantas'') then ''T3'' else ''T2'')) \<and>
   (processFlight_api flight = Inr g \<and> \<not> truthy (field flight ''airline'') \<longrightarrow>
      terminal_api g = ''T2'') \<and>
   (processFlight_api flight = Inr g \<and> getProp flight ''airline'' = Inr (JStr a) \<and>
    flightHour_api g = Some k \<longrightarrow>
      (\<exists>m'. countByHour_api g n = Inr m' \<and>
         m' k = Some (if (\<exists>p u q. a = p @ u @ q \<and> toLowerCase u = ''qantas'')
                      then \<lparr>T2 = T2 (bucketAt n k), T3 = T3 (bucketAt n k) + 1,
                             total_n = total_n (bucketAt n k) + 1\<rparr>
                      else \<lparr>T2 = T2 (bucketAt n k) + 1, T3 = T3 (bucketAt n k),
                             total_n = total_n (bucketAt n k) + 1\<rparr>) \<and>
         (\<forall>j. j \<noteq> k \<longrightarrow> m' j = n j))) \<and>
   (processCard c = Inr f \<and> airlineElement c = Some b \<and> flightHour f = Some h \<longrightarrow>
      countByHour m f =
        countFlight (\<exists>p u q. b = p @ u @ q \<and> toLowerCase u = ''qantas'') h m \<and>
      countByHour m f h =
        Some (if (\<exists>p u q. b = p @ u @ q \<and> toLowerCase u = ''qantas'')
              then \<lparr>T2 = T2 (bucketAt m h), T3 = T3 (bucketAt m h) + 1,
                     total_n = total_n (bucketAt m h) + 1\<rparr>
              else \<lparr>T2 = T2 (bucketAt m h) + 1, T3 = T3 (bucketAt m h),
                     total_n = total_n (bucketAt m h) + 1\<rparr>) \<and>
      (\<forall>j. j \<noteq> h \<longrightarrow> countByHour m f j = m j)) \<and>
   (processCard c = Inr f \<and> airlineElement c = None \<and> flightHour f = Some h \<longrightarrow>
      countByHour m f = countFlight False h m \<and>
      countByHour m f h =
        Some \<lparr>T2 = T2 (bucketAt m h) + 1, T3 = T3 (bucketAt m h),
               total_n = total_n (bucketAt m h) + 1\<rparr>) \<and>
   map_sum id terminal_api (processFlight_api (rawOf ''09:15'' ''Qantas Airways'' ''On Time'')) = Inr ''T3'' \<and>
   map_sum id terminal_api (processFlight_api (rawOf ''09:15'' ''QANTAS'' ''On Time'')) = Inr ''T3'' \<and>
   map_sum id terminal_api (processFlight_api (rawOf ''09:15'' ''Jetstar'' ''On Time'')) = Inr ''T2'' \<and>
   map_sum id isT3 (processCard (cardOf ''09:15'' ''Qantas Airways'' ''On Time'')) = Inr True \<and>
   map_sum id isT3 (processCard (cardOf ''09:15'' ''QANTAS'' ''On Time'')) = Inr True \<and>
   map_sum id isT3 (processCard (cardOf ''09:15'' ''Jetstar'' ''On Time'')) = Inr False \<and>
   map_sum id (\<lambda>f. countByHour Map.empty f 9)
       (processCard (cardOf ''09:15'' ''Qantas Airways'' ''On Time'')) =
     Inr (Some \<lparr>T2 = 0, T3 = 1, total_n = 1\<rparr>) \<and>
   map_sum id (\<lambda>f. countByHour Map.empty f 9)
       (processCard (cardOf ''09:15'' ''QANTAS'' ''On Time'')) =
     Inr (Some \<lparr>T2 = 0, T3 = 1, total_n = 1\<rparr>) \<and>
   map_sum id (\<lambda>f. countByHour Map.empty f 9)
       (processCard (cardOf ''09:15'' ''Jetstar'' ''On Time'')) =
     Inr (Some \<lparr>T2 = 1, T3 = 0, total_n = 1\<rparr>)"
proof -
  let ?P = "\<lambda>x. \<exists>p u q. x = p @ u @ q \<and> toLowerCase u = ''qantas''"
  have 1: "processFlight_api flight = Inr g \<and> getProp flight ''airline'' = Inr (JStr a) \<longrightarrow>
      terminal_api g = (if ?P a then ''T3'' else ''T2'')"
    using terminal_api_text by blast
  have 2: "processFlight_api flight = Inr g \<and> \<not> truthy (field flight ''airline'') \<longrightarrow>
      terminal_api g = ''T2''"
    using terminal_api_missing by blast
  have 3: "processFlight_api flight = Inr g \<and> getProp flight ''airline'' = Inr (JStr a) \<and>
    flightHour_api g = Some k \<longrightarrow>
      (\<exists>m'. countByHour_api g n = Inr m' \<and>
         m' k = Some (if ?P a
                      then \<lparr>T2 = T2 (bucketAt n k), T3 = T3 (bucketAt n k) + 1,
                             total_n = total_n (bucketAt n k) + 1\<rparr>
                      else \<lparr>T2 = T2 (bucketAt n k) + 1, T3 = T3 (bucketAt n k),
                             total_n = total_n (bucketAt n k) + 1\<rparr>) \<and>
         (\<forall>j. j \<noteq> k \<longrightarrow> m' j = n j))"
  proof
    assume a: "processFlight_api flight = Inr g \<and> getProp flight ''airline'' = Inr (JStr a) \<and>
      flightHour_api g = Some k"
    then have t: "terminal_api g = (if ?P a then ''T3'' else ''T2'')" using 1 by blast
    then have e: "(terminal_api g = ''T3'') = ?P a" by (cases "?P a") simp_all
    have c: "countByHour_api g n = Inr (countFlight (?P a) k n)"
      using a countByHour_api_hour [of g k n] e by simp
    show "\<exists>m'. countByHour_api g n = Inr m' \<and>
         m' k = Some (if ?P a
                      then \<lparr>T2 = T2 (bucketAt n k), T3 = T3 (bucketAt n k) + 1,
                             total_n = total_n (bucketAt n k) + 1\<rparr>
                      else \<lparr>T2 = T2 (bucketAt n k) + 1, T3 = T3 (bucketAt n k),
                             total_n = total_n (bucketAt n k) + 1\<rparr>) \<and>
         (\<forall>j. j \<noteq> k \<longrightarrow> m' j = n j)"
      using c countFlight_at [of "?P a" k n] countFlight_other [of _ k "?P a" n] by simp
  qed
  have 4: "processCard c = Inr f \<and> airlineElement c = Some b \<and> flightHour f = Some h \<longrightarrow>
      countByHour m f = countFlight (?P b) h m \<and>
      countByHour m f h =
        Some (if ?P b
              then \<lparr>T2 = T2 (bucketAt m h), T3 = T3 (bucketAt m h) + 1,
                     total_n = total_n (bucketAt m h) + 1\<rparr>
              else \<lparr>T2 = T2 (bucketAt m h) + 1, T3 = T3 (bucketAt m h),
                     total_n = total_n (bucketAt m h) + 1\<rparr>) \<and>
      (\<forall>j. j \<noteq> h \<longrightarrow> countByHour m f j = m j)"
  proof
    assume a: "processCard c = Inr f \<and> airlineElement c = Some b \<and> flightHour f = Some h"
    then have "isT3 f \<longleftrightarrow> ?P b" using isT3_text by blast
    then have e: "countByHour m f = countFlight (?P b) h m"
      using a by (simp add: countByHour_isT3)
    show "countByHour m f = countFlight (?P b) h m \<and>
      countByHour m f h =
        Some (if ?P b
              then \<lparr>T2 = T2 (bucketAt m h), T3 = T3 (bucketAt m h) + 1,
                     total_n = total_n (bucketAt m h) + 1\<rparr>
              else \<lparr>T2 = T2 (bucketAt m h) + 1, T3 = T3 (bucketAt m h),
                     total_n = total_n (bucketAt m h) + 1\<rparr>) \<and>
      (\<forall>j. j \<noteq> h \<longrightarrow> countByHour m f j = m j)"
      using e countFlight_at [of "?P b" h m] countFlight_other [of _ h "?P b" m] by simp
  qed
  have 5: "processCard c = Inr f \<and> airlineElement c = None \<and> flightHour f = Some h \<longrightarrow>
      countByHour m f = countFlight False h m \<and>
      countByHour m f h =
        Some \<lparr>T2 = T2 (bucketAt m h) + 1, T3 = T3 (bucketAt m h),
               total_n = total_n (bucketAt m h) + 1\<rparr>"
  proof
    assume a: "processCard c = Inr f \<and> airlineElement c = None \<and> flightHour f = Some h"
    then have "\<not> isT3 f" using isT3_missing by blast
    then have e: "countByHour m f = countFlight False h m"
      using a by (simp add: countByHour_isT3)
    show "countByHour m f = countFlight False h m \<and>
      countByHour m f h =
        Some \<lparr>T2 = T2 (bucketAt m h) + 1, T3 = T3 (bucketAt m h),
               total_n = total_n (bucketAt m h) + 1\<rparr>"
      using e countFlight_at [of False h m] by simp
  qed
  show ?thesis
    using 1 2 3 4 5 terminal_examples counter_examples by (intro conjI)
qed

theorem qantas_terminal_witness:
  "processFlight_api (rawOf ''09:15'' ''Qantas Airways'' ''On Time'') = Inr qantasFlight_api \<and>
   getProp (rawOf ''09:15'' ''Qantas Airways'' ''On Time'') ''airline'' = Inr (JStr ''Qantas Airways'') \<and>
   terminal_api qantasFlight_api = ''T3'' \<and>
   (\<exists>p u q. ''Qantas Airways'' = p @ u @ q \<and> toLowerCase u = ''qantas'') \<and>
   flightHour_api qantasFlight_api = Some 9 \<and>
   (\<exists>m'. countByHour_api qantasFlight_api Map.empty = Inr m' \<and>
      m' 9 = Some \<lparr>T2 = 0, T3 = 1, total_n = 1\<rparr>) \<and>
   processCard (cardOf ''09:15'' ''Qantas Airways'' ''On Time'') = Inr qantasFlight \<and>
   airlineElement (cardOf ''09:15'' ''Qantas Airways'' ''On Time'') = Some ''Qantas Airways'' \<and>
   flightHour qantasFlight = Some 9 \<and>
   countByHour Map.empty qantasFlight = countFlight True 9 Map.empty \<and>
   countByHour Map.empty qantasFlight 9 = Some \<lparr>T2 = 0, T3 = 1, total_n = 1\<rparr>"
proof -
  have a: "processFlight_api (rawOf ''09:15'' ''Qantas Airways'' ''On Time'') = Inr qantasFlight_api"
    by code_simp
  have b: "getProp (rawOf ''09:15'' ''Qantas Airways'' ''On Time'') ''airline'' =
      Inr (JStr ''Qantas Airways'')"
    by code_simp
  have c: "terminal_api qantasFlight_api = ''T3''"
    by (simp add: qantasFlight_api_def flightOf_api_def)
  have d: "processCard (cardOf ''09:15'' ''Qantas Airways'' ''On Time'') = Inr qantasFlight"
    by code_simp
  have e: "airlineElement (cardOf ''09:15'' ''Qantas Airways'' ''On Time'') = Some ''Qantas Airways''"
    by (simp add: cardOf_def)
  have f: "flightHour qantasFlight = Some 9" by code_simp
  have f': "flightHour_api qantasFlight_api = Some 9" by code_simp
  have z: "bucketAt Map.empty 9 = emptyBucket" by (rule bucketAt_empty)
  note t = qantas_terminal [of "rawOf ''09:15'' ''Qantas Airways'' ''On Time''" qantasFlight_api
      "''Qantas Airways''" 9 Map.empty "cardOf ''09:15'' ''Qantas Airways'' ''On Time''" qantasFlight
      "''Qantas Airways''" 9 Map.empty]
  have g: "\<exists>p u q. ''Qantas Airways'' = p @ u @ q \<and> toLowerCase u = ''qantas''"
  proof (rule ccontr)
    assume "\<not> (\<exists>p u q. ''Qantas Airways'' = p @ u @ q \<and> toLowerCase u = ''qantas'')"
    then have "terminal_api qantasFlight_api = ''T2''" using t a b by simp
    then show False using c by simp
  qed
  have h: "\<exists>m'. countByHour_api qantasFlight_api Map.empty = Inr m' \<and>
      m' 9 = Some \<lparr>T2 = 0, T3 = 1, total_n = 1\<rparr>"
    using t a b f' g z by (auto simp: emptyBucket_def)
  have i: "countByHour Map.empty qantasFlight = countFlight True 9 Map.empty \<and>
      countByHour Map.empty qantasFlight 9 = Some \<lparr>T2 = 0, T3 = 1, total_n = 1\<rparr>"
    using t d e f g z by (auto simp: emptyBucket_def)
  have i1: "countByHour Map.empty qantasFlight = countFlight True 9 Map.empty"
    and i2: "countByHour Map.empty qantasFlight 9 = Some \<lparr>T2 = 0, T3 = 1, total_n = 1\<rparr>"
    using i by blast+
  show ?thesis by (intro conjI) (fact a b c d e f f' g h i1 i2)+
qed

section \<open>Errors of one record\<close>

lemma flightsHandler_api_invalid:
  "validateParams_api (withDefault (date q) ''today'') (withDefault (flightType q) ''domestic'')
     (withDefault (flightDirection q) ''departure'') = Invalid message \<Longrightarrow>
   flightsHandler_api formatDate axiosGet q = (Status400 message, [])"
  by (simp add: flightsHandler_api_def Let_def)

lemma flightsHandler_invalid:
  "validateParams (withDefault (date q) ''today'') (withDefault (flightType q) ''domestic'') =
     Invalid message \<Longrightarrow>
   flightsHandler formatDate loadPage q = (Status400 message, [])"
  by (simp add: flightsHandler_def Let_def)

lemma flightsHandler_api_valid:
  assumes "validateParams_api (withDefault (date q) ''today'') (withDefault (flightType q) ''domestic'')
     (withDefault (flightDirection q) ''departure'') = Valid"
    and "call = (formatDate (dateOffset (withDefault (date q) ''today'')),
                 withDefault (flightType q) ''domestic'', withDefault (flightDirection q) ''departure'')"
  shows "snd (flightsHandler_api formatDate axiosGet q) = [call]"
    and "getFlightData axiosGet call = Inl e \<Longrightarrow>
         fst (flightsHandler_api formatDate axiosGet q) = Status500 e"
    and "getFlightData axiosGet call = Inr (totalFlights, flights) \<Longrightarrow>
         buildReport_api (fst call) (withDefault (flightType q) ''domestic'')
           (withDefault (flightDirection q) ''departure'') totalFlights flights = Inr r \<Longrightarrow>
         fst (flightsHandler_api formatDate axiosGet q) = Json r"
  using assms by (simp_all add: flightsHandler_api_def Let_def bindE_def)

lemma getFlightData_emptySource: "getFlightData emptySource call = Inr (JNum ''0'', [])"
  by (simp add: getFlightData_def emptySource_def bindE_def field_def)

lemma getFlightData_badSource: "getFlightData badSource call = Inl TypeError"
proof -
  have "arrayMap processFlight_api [recordNumericStatus, rawOf ''09:15'' ''Qantas'' ''On Time''] =
      Inl TypeError"
    by code_simp
  then show ?thesis
    by (simp add: getFlightData_def badSource_def badPayload_def bindE_def field_def)
qed

text \<open>
  C4. In app.js the body of the loop over the cards is inside \<open>try\<close>/\<open>catch\<close>: a card
  whose body throws is skipped (\<open>forEachTry_skips\<close>). part_000 has no \<open>catch\<close> inside
  \<open>data.flightData.map\<close>: for a payload of two records, the first with the numeric
  status 404, the exception of the first record leaves \<open>getFlightData\<close>, and the handler
  answers 500, although the second record alone is normalised without an error.
\<close>

theorem record_error_fails_request:
  "flightsHandler_api fixedDate badSource (queryOf JUndefined JUndefined JUndefined) =
     (Status500 TypeError, [(''2026-11-03'', JStr ''domestic'', JStr ''departure'')]) \<and>
   processFlight_api recordNumericStatus = Inl TypeError \<and>
   map_sum id status_api (processFlight_api (rawOf ''09:15'' ''Qantas'' ''On Time'')) = Inr ''on time''"
proof -
  let ?q = "queryOf JUndefined JUndefined JUndefined"
  let ?call = "(''2026-11-03'', JStr ''domestic'', JStr ''departure'')"
  have "validateParams_api (JStr ''today'') (JStr ''domestic'') (JStr ''departure'') = Valid"
    by code_simp
  then have v: "validateParams_api (withDefault (date ?q) ''today'') (withDefault (flightType ?q) ''domestic'')
     (withDefault (flightDirection ?q) ''departure'') = Valid"
    by (simp add: queryOf_def withDefault_def)
  have c: "?call = (fixedDate (dateOffset (withDefault (date ?q) ''today'')),
                 withDefault (flightType ?q) ''domestic'', withDefault (flightDirection ?q) ''departure'')"
    by (simp add: queryOf_def withDefault_def fixedDate_def)
  have "flightsHandler_api fixedDate badSource ?q =
      (fst (flightsHandler_api fixedDate badSource ?q), snd (flightsHandler_api fixedDate badSource ?q))"
    by simp
  then have 1: "flightsHandler_api fixedDate badSource ?q = (Status500 TypeError, [?call])"
    using flightsHandler_api_valid(1) [where q = "?q" and formatDate = fixedDate and call = "?call"
        and axiosGet = badSource]
      flightsHandler_api_valid(2) [where q = "?q" and formatDate = fixedDate and call = "?call"
        and axiosGet = badSource and e = TypeError] v c getFlightData_badSource
    by simp
  have 2: "processFlight_api recordNumericStatus = Inl TypeError" by code_simp
  have 3: "map_sum id status_api (processFlight_api (rawOf ''09:15'' ''Qantas'' ''On Time'')) = Inr ''on time''"
    by code_simp
  show ?thesis using 1 2 3 by simp
qed

section \<open>Parameters outside their sets\<close>

lemma validateParams_api_flightType:
  "truthy ft \<Longrightarrow> \<not> arrayIncludes [''domestic'', ''international''] ft \<Longrightarrow>
   validateParams_api d ft fd = Invalid flightTypeMessage"
  by (simp add: validateParams_api_def)

lemma validateParams_flightType:
  "truthy ft \<Longrightarrow> \<not> arrayIncludes [''domestic'', ''international''] ft \<Longrightarrow>
   validateParams d ft = Invalid flightTypeMessage"
  by (simp add: validateParams_def)

lemma empty_type_valid:
  "validateParams_api (JStr ''today'') (JStr []) (JStr ''departure'') = Valid"
  by code_simp

text \<open>
  C9, as the spec states it: a request with a parameter outside its set is answered with
  400 and nothing is fetched, in both servers. The empty flight type is not in its set,
  and \<open>validateParams\<close> lets it pass (\<open>flightType && ...\<close>): part_000 sends its request to
  the airport. app.js does not read \<open>flightDirection\<close>: with the direction \<open>sideways\<close> it
  loads the page of the three example cards.
\<close>

theorem empty_parameter_counterexample:
  "\<not> arrayIncludes [''domestic'', ''international''] (JStr []) \<and>
   isJson (fst (flightsHandler_api fixedDate emptySource (queryOf JUndefined (JStr []) JUndefined))) \<and>
   snd (flightsHandler_api fixedDate emptySource (queryOf JUndefined (JStr []) JUndefined)) =
     [(''2026-11-03'', JStr [], JStr ''departure'')] \<and>
   \<not> arrayIncludes [''arrival'', ''departure''] (JStr ''sideways'') \<and>
   isJson (fst (flightsHandler fixedDate examplePage (queryOf JUndefined JUndefined (JStr ''sideways'')))) \<and>
   snd (flightsHandler fixedDate examplePage (queryOf JUndefined JUndefined (JStr ''sideways''))) =
     [(''2026-11-03'', ''domestic'')]"
proof -
  let ?q = "queryOf JUndefined (JStr []) JUndefined"
  let ?call = "(''2026-11-03'', JStr [], JStr ''departure'')"
  have v: "validateParams_api (withDefault (date ?q) ''today'') (withDefault (flightType ?q) ''domestic'')
     (withDefault (flightDirection ?q) ''departure'') = Valid"
    using empty_type_valid by (simp add: queryOf_def withDefault_def)
  have c: "?call = (fixedDate (dateOffset (withDefault (date ?q) ''today'')),
                 withDefault (flightType ?q) ''domestic'', withDefault (flightDirection ?q) ''departure'')"
    by (simp add: queryOf_def withDefault_def fixedDate_def)
  obtain r where r: "buildReport_api (fst ?call) (withDefault (flightType ?q) ''domestic'')
           (withDefault (flightDirection ?q) ''departure'') (JNum ''0'') [] = Inr r"
    using buildReport_api_Nil by blast
  have 1: "snd (flightsHandler_api fixedDate emptySource ?q) = [?call]"
    using flightsHandler_api_valid(1) [where q = "?q" and formatDate = fixedDate and call = "?call"
        and axiosGet = emptySource] v c by blast
  have 2: "isJson (fst (flightsHandler_api fixedDate emptySource ?q))"
    using flightsHandler_api_valid(3) [where q = "?q" and formatDate = fixedDate and call = "?call"
        and axiosGet = emptySource and totalFlights = "JNum ''0''" and flights = "[]" and r = r]
      v c getFlightData_emptySource r
    by (simp add: isJson_def)
  let ?p = "queryOf JUndefined JUndefined (JStr ''sideways'')"
  let ?page = "(''2026-11-03'', ''domestic'')"
  have v': "validateParams (withDefault (date ?p) ''today'') (withDefault (flightType ?p) ''domestic'') = Valid"
    using sideways_valid by (simp add: queryOf_def withDefault_def)
  have c': "?page = (fixedDate (dateOffset (withDefault (date ?p) ''today'')),
                 if strictEq (withDefault (flightType ?p) ''domestic'') (JStr ''domestic'')
                 then ''domestic'' else ''international'')"
    by (simp add: queryOf_def withDefault_def fixedDate_def)
  have g: "getFlightTimes examplePage ?page = Inr exampleFlights"
    by (rule getFlightTimes_examplePage)
  have 3: "snd (flightsHandler fixedDate examplePage ?p) = [?page]"
    using flightsHandler_valid(1) [where q = "?p" and formatDate = fixedDate and call = "?page"
        and loadPage = examplePage] v' c' by blast
  have 4: "isJson (fst (flightsHandler fixedDate examplePage ?p))"
    using flightsHandler_valid(3) [where q = "?p" and formatDate = fixedDate and call = "?page"
        and loadPage = examplePage and flightData = exampleFlights] v' c' g
    by (simp add: isJson_def)
  have 5: "\<not> arrayIncludes [''domestic'', ''international''] (JStr [])" by code_simp
  have 6: "\<not> arrayIncludes [''arrival'', ''departure''] (JStr ''sideways'')" by code_simp
  show ?thesis using 1 2 3 4 5 6 by simp
qed

lemma withDefault_outside:
  "(truthy (withDefault v ''domestic'') \<and>
      \<not> arrayIncludes [''domestic'', ''international''] (withDefault v ''domestic'')) =
   (truthy v \<and> \<not> arrayIncludes [''domestic'', ''international''] v)"
  "(truthy (withDefault v ''today'') \<and>
      \<not> arrayIncludes [''today'', ''yesterday'', ''tomorrow'', ''day_after_tomorrow'']
          (withDefault v ''today'')) =
   (truthy v \<and> \<not> arrayIncludes [''today'', ''yesterday'', ''tomorrow'', ''day_after_tomorrow''] v)"
  "(truthy (withDefault v ''departure'') \<and>
      \<not> arrayIncludes [''arrival'', ''departure''] (withDefault v ''departure'')) =
   (truthy v \<and> \<not> arrayIncludes [''arrival'', ''departure''] v)"
  by (simp_all add: withDefault_def arrayIncludes_def)

lemma validateParams_api_query:
  "validateParams_api (withDefault (date q) ''today'') (withDefault (flightType q) ''domestic'')
     (withDefault (flightDirection q) ''departure'') =
   (if truthy (flightType q) \<and> \<not> arrayIncludes [''domestic'', ''international''] (flightType q)
    then Invalid flightTypeMessage
    else if truthy (date q) \<and>
      \<not> arrayIncludes [''today'', ''yesterday'', ''tomorrow'', ''day_after_tomorrow''] (date q)
    then Invalid dateMessage
    else if truthy (flightDirection q) \<and> \<not> arrayIncludes [''arrival'', ''departure''] (flightDirection q)
    then Invalid flightDirectionMessage
    else Valid)"
  unfolding validateParams_api_def withDefault_outside by (rule refl)

lemma validateParams_query:
  "validateParams (withDefault (date q) ''today'') (withDefault (flightType q) ''domestic'') =
   (if truthy (flightType q) \<and> \<not> arrayIncludes [''domestic'', ''international''] (flightType q)
    then Invalid flightTypeMessage
    else if truthy (date q) \<and>
      \<not> arrayIncludes [''today'', ''yesterday'', ''tomorrow'', ''day_after_tomorrow''] (date q)
    then Invalid dateMessage
    else Valid)"
  unfolding validateParams_def withDefault_outside by (rule refl)

text \<open>
  C9, amended. A request whose \<open>flightType\<close> or \<open>date\<close> is not empty and outside its
  set is answered by both servers with 400 and the message of \<open>validateParams\<close> for the
  first such parameter: the message of the flight type when the flight type is such a
  parameter, else the message of the date. In part_000 the same holds for
  \<open>flightDirection\<close>, whose message comes third. Nothing is fetched then, whatever the
  airport would answer.
\<close>

theorem invalid_parameter_rejected:
  "(truthy (flightType q) \<and> \<not> arrayIncludes [''domestic'', ''international''] (flightType q) \<longrightarrow>
      flightsHandler_api formatDate axiosGet q = (Status400 flightTypeMessage, []) \<and>
      flightsHandler formatDate loadPage q = (Status400 flightTypeMessage, [])) \<and>
   (truthy (date q) \<and>
    \<not> arrayIncludes [''today'', ''yesterday'', ''tomorrow'', ''day_after_tomorrow''] (date q) \<longrightarrow>
      flightsHandler_api formatDate axiosGet q =
        (Status400
           (if truthy (flightType q) \<and> \<not> arrayIncludes [''domestic'', ''international''] (flightType q)
            then flightTypeMessage else dateMessage), []) \<and>
      flightsHandler formatDate loadPage q =
        (Status400
           (if truthy (flightType q) \<and> \<not> arrayIncludes [''domestic'', ''international''] (flightType q)
            then flightTypeMessage else dateMessage), [])) \<and>
   (truthy (flightDirection q) \<and> \<not> arrayIncludes [''arrival'', ''departure''] (flightDirection q) \<longrightarrow>
      flightsHandler_api formatDate axiosGet q =
        (Status400
           (if truthy (flightType q) \<and> \<not> arrayIncludes [''domestic'', ''international''] (flightType q)
            then flightTypeMessage
            else if truthy (date q) \<and>
              \<not> arrayIncludes [''today'', ''yesterday'', ''tomorrow'', ''day_after_tomorrow''] (date q)
            then dateMessage else flightDirectionMessage), []))"
proof (intro conjI impI)
  assume a: "truthy (flightType q) \<and> \<not> arrayIncludes [''domestic'', ''international''] (flightType q)"
  show "flightsHandler_api formatDate axiosGet q = (Status400 flightTypeMessage, [])"
    using a by (intro flightsHandler_api_invalid) (simp add: validateParams_api_query)
  show "flightsHandler formatDate loadPage q = (Status400 flightTypeMessage, [])"
    using a by (intro flightsHandler_invalid) (simp add: validateParams_query)
next
  assume a: "truthy (date q) \<and>
    \<not> arrayIncludes [''today'', ''yesterday'', ''tomorrow'', ''day_after_tomorrow''] (date q)"
  show "flightsHandler_api formatDate axiosGet q =
        (Status400
           (if truthy (flightType q) \<and> \<not> arrayIncludes [''domestic'', ''international''] (flightType q)
            then flightTypeMessage else dateMessage), [])"
    using a by (intro flightsHandler_api_invalid) (simp add: validateParams_api_query)
  show "flightsHandler formatDate loadPage q =
        (Status400
           (if truthy (flightType q) \<and> \<not> arrayIncludes [''domestic'', ''international''] (flightType q)
            then flightTypeMessage else dateMessage), [])"
    using a by (intro flightsHandler_invalid) (simp add: validateParams_query)
next
  assume a: "truthy (flightDirection q) \<and> \<not> arrayIncludes [''arrival'', ''departure''] (flightDirection q)"
  show "flightsHandler_api formatDate axiosGet q =
        (Status400
           (if truthy (flightType q) \<and> \<not> arrayIncludes [''domestic'', ''international''] (flightType q)
            then flightTypeMessage
            else if truthy (date q) \<and>
              \<not> arrayIncludes [''today'', ''yesterday'', ''tomorrow'', ''day_after_tomorrow''] (date q)
            then dateMessage else flightDirectionMessage), [])"
    using a by (intro flightsHandler_api_invalid) (simp add: validateParams_api_query)
qed

theorem invalid_parameter_rejected_witness:
  "truthy (JStr ''domestic2'') \<and>
   \<not> arrayIncludes [''domestic'', ''international''] (JStr ''domestic2'') \<and>
   flightsHandler_api fixedDate badSource (queryOf JUndefined (JStr ''domestic2'') JUndefined) =
     (Status400 flightTypeMessage, []) \<and>
   flightsHandler fixedDate examplePage (queryOf JUndefined (JStr ''domestic2'') JUndefined) =
     (Status400 flightTypeMessage, []) \<and>
   truthy (JStr ''someday'') \<and>
   \<not> arrayIncludes [''today'', ''yesterday'', ''tomorrow'', ''day_after_tomorrow''] (JStr ''someday'') \<and>
   flightsHandler_api fixedDate badSource (queryOf (JStr ''someday'') JUndefined JUndefined) =
     (Status400 dateMessage, []) \<and>
   flightsHandler fixedDate examplePage (queryOf (JStr ''someday'') JUndefined JUndefined) =
     (Status400 dateMessage, []) \<and>
   flightsHandler_api fixedDate badSource (queryOf (JStr ''someday'') (JStr ''domestic2'') JUndefined) =
     (Status400 flightTypeMessage, []) \<and>
   truthy (JStr ''sideways'') \<and>
   \<not> arrayIncludes [''arrival'', ''departure''] (JStr ''sideways'') \<and>
   flightsHandler_api fixedDate badSource (queryOf JUndefined JUndefined (JStr ''sideways'')) =
     (Status400 flightDirectionMessage, []) \<and>
   flightsHandler_api fixedDate badSource (queryOf (JStr ''someday'') JUndefined (JStr ''sideways'')) =
     (Status400 dateMessage, [])"
proof -
  have a: "truthy (JStr ''domestic2'') \<and>
      \<not> arrayIncludes [''domestic'', ''international''] (JStr ''domestic2'')"
    by code_simp
  have b: "truthy (JStr ''someday'') \<and>
      \<not> arrayIncludes [''today'', ''yesterday'', ''tomorrow'', ''day_after_tomorrow''] (JStr ''someday'')"
    by code_simp
  have c: "truthy (JStr ''sideways'') \<and> \<not> arrayIncludes [''arrival'', ''departure''] (JStr ''sideways'')"
    by code_simp
  show ?thesis
    using invalid_parameter_rejected [of "queryOf JUndefined (JStr ''domestic2'') JUndefined"
        fixedDate badSource examplePage]
      invalid_parameter_rejected [of "queryOf (JStr ''someday'') JUndefined JUndefined"
        fixedDate badSource examplePage]
      invalid_parameter_rejected [of "queryOf (JStr ''someday'') (JStr ''domestic2'') JUndefined"
        fixedDate badSource examplePage]
      invalid_parameter_rejected [of "queryOf JUndefined JUndefined (JStr ''sideways'')"
        fixedDate badSource examplePage]
      invalid_parameter_rejected [of "queryOf (JStr ''someday'') JUndefined (JStr ''sideways'')"
        fixedDate badSource examplePage] a b c
    by (simp add: queryOf_def)
qed

end
